theory Spec2Isabelle
  imports Main "HOL-Library.Word" "HOL-Library.Sublist" "HOL-Library.AList"
begin

section \<open>Strings\<close>

text \<open>
  Go strings are byte sequences; they are modelled as \<open>string\<close> (a list of \<open>char\<close>).
  The functions of this section are the library calls of package \<open>strings\<close> that the
  sidecar uses, written out for the arguments it passes.
\<close>

fun strings_Join :: "string list \<Rightarrow> string \<Rightarrow> string" where
  "strings_Join [] sep = []"
| "strings_Join [x] sep = x"
| "strings_Join (x # y # ys) sep = x @ sep @ strings_Join (y # ys) sep"

text \<open>
  \<open>split_when p s\<close> cuts \<open>s\<close> at every byte satisfying \<open>p\<close> and keeps the empty
  pieces, so the result is never empty. With a one-byte separator it is
  \<open>strings.Split(s, sep)\<close>.
\<close>

primrec split_when :: "(char \<Rightarrow> bool) \<Rightarrow> string \<Rightarrow> string list" where
  "split_when p [] = [[]]"
| "split_when p (c # cs) =
     (if p c then [] # split_when p cs
      else (case split_when p cs of
              [] \<Rightarrow> [[c]]
            | w # ws \<Rightarrow> (c # w) # ws))"

definition strings_Split :: "string \<Rightarrow> char \<Rightarrow> string list" where
  "strings_Split s sep = split_when (\<lambda>c. c = sep) s"

text \<open>
  \<open>strings.Fields\<close> splits around runs of white space and returns no empty field.
  The white space of the model is the ASCII one (space, tab, line feed, vertical tab,
  form feed, carriage return).
\<close>

definition is_space :: "char \<Rightarrow> bool" where
  "is_space c = (c \<in> set [CHR '' '', CHR 0x09, CHR 0x0A, CHR 0x0B, CHR 0x0C, CHR 0x0D])"

definition strings_Fields :: "string \<Rightarrow> string list" where
  "strings_Fields s = filter (\<lambda>w. w \<noteq> []) (split_when is_space s)"

definition strings_HasPrefix :: "string \<Rightarrow> string \<Rightarrow> bool" where
  "strings_HasPrefix s pre = (take (length pre) s = pre)"

text \<open>\<open>strings.ReplaceAll(s, "\n", "")\<close>: every line feed is dropped.\<close>

definition strip_newlines :: "string \<Rightarrow> string" where
  "strip_newlines s = filter (\<lambda>c. c \<noteq> CHR 0x0A) s"

definition is_digit :: "char \<Rightarrow> bool" where
  "is_digit c = (c \<in> set ''0123456789'')"

definition digit_val :: "char \<Rightarrow> int" where
  "digit_val c = int (of_char c) - 48"

section \<open>Errors and results\<close>

text \<open>
  A Go \<open>error\<close> value is modelled by its origin and message. A function that returns an
  \<open>error\<close> returns \<open>Error e\<close> here; a run-time panic (nil dereference, index out of
  range) is the separate result \<open>Panic\<close>, because the caller's \<open>if err != nil\<close> never
  sees it.
\<close>

datatype error =
    PathError string string
  | ExecError string
  | ErrorString string
  | NumError string
  | ParseError string
  | MarshalError string

datatype 'a result = Ok 'a | Error error | Panic string

section \<open>strconv.Atoi\<close>

text \<open>
  An optional sign followed by at least one decimal digit, with a value that fits the
  64-bit \<open>int\<close>; anything else is an error.
\<close>

definition Atoi :: "string \<Rightarrow> error + int" where
  "Atoi s =
     (let neg = (s \<noteq> [] \<and> hd s = CHR ''-'');
          ds = (if s \<noteq> [] \<and> (hd s = CHR ''-'' \<or> hd s = CHR ''+'') then tl s else s)
      in if ds = [] \<or> \<not> list_all is_digit ds then Inl (NumError ''invalid syntax'')
         else (let un = foldl (\<lambda>n c. 10 * n + digit_val c) 0 ds;
                   n = (if neg then - un else un)
               in if n < - (2 ^ 63) \<or> 2 ^ 63 - 1 < n then Inl (NumError ''value out of range'')
                  else Inr n))"

section \<open>Time\<close>

text \<open>
  An instant is the number of nanoseconds since the zero instant \<open>time.Time{}\<close>, so
  \<open>IsZero\<close> is equality with 0. \<open>Sub\<close> saturates at the limits of the 64-bit
  \<open>Duration\<close>. Formatting and parsing with the layout
  \<open>2006-01-02 15:04:05.999999999 -0700 MST\<close> belong to package \<open>time\<close> and are
  parameters of the model (see \<open>extern\<close> below).
\<close>

type_synonym Time = int

definition IsZero :: "Time \<Rightarrow> bool" where
  "IsZero t = (t = 0)"

definition time_Sub :: "Time \<Rightarrow> Time \<Rightarrow> int" where
  "time_Sub t u = max (- (2 ^ 63)) (min (2 ^ 63 - 1) (t - u))"

definition Second :: int where
  "Second = 1000000000"

section \<open>The file system\<close>

text \<open>
  The file system is an association list from node names to nodes (the order of the
  list stands for the directory order that \<open>ReadDir\<close> reports) and a predicate
  \<open>io_fault\<close> naming the nodes on which changing an existing file fails (a full or
  read-only device): it makes the error returns of \<open>WriteString\<close> and \<open>Chmod\<close>
  reachable. The name of a node is the list of the directory names that lead to it
  from the root, followed by its own name; the root is the empty list. There are no
  symbolic links, the working directory is the root, and the root is its own parent.
\<close>

datatype node = File string | Dir

record filesystem =
  nodes :: "(string list \<times> node) list"
  io_fault :: "string list \<Rightarrow> bool"

definition lookup :: "filesystem \<Rightarrow> string list \<Rightarrow> node option" where
  "lookup fsys c = (if c = [] then Some Dir else map_of (nodes fsys) c)"

definition store :: "string list \<Rightarrow> node \<Rightarrow> filesystem \<Rightarrow> filesystem" where
  "store c n fsys = fsys\<lparr>nodes := AList.update c n (nodes fsys)\<rparr>"

text \<open>
  A path is read as its components, the pieces between slashes, empty pieces dropped
  (\<open>a//b/\<close> and \<open>a/b\<close> have the same components). Path resolution walks them from the
  root as the kernel does: \<open>.\<close> stays, \<open>..\<close> goes to the parent, any other component
  goes to the child of that name, and every component is looked up in an existing
  directory. The result is the name of the node that the path denotes (which need not
  exist), or nothing when the walk meets a missing node or a regular file on its way.
\<close>

definition comps :: "string \<Rightarrow> string list" where
  "comps p = filter (\<lambda>w. w \<noteq> []) (strings_Split p CHR ''/'')"

fun walk :: "filesystem \<Rightarrow> string list \<Rightarrow> string list \<Rightarrow> string list option" where
  "walk fsys cur [] = Some cur"
| "walk fsys cur (c # cs) =
     (if lookup fsys cur \<noteq> Some Dir then None
      else if c = ''.'' then walk fsys cur cs
      else if c = ''..'' then walk fsys (butlast cur) cs
      else walk fsys (cur @ [c]) cs)"

definition resolve :: "filesystem \<Rightarrow> string \<Rightarrow> string list option" where
  "resolve fsys p = walk fsys [] (comps p)"

text \<open>Whether the last component of a path is \<open>.\<close> or \<open>..\<close>, or the path has none.\<close>

definition names_directory :: "string \<Rightarrow> bool" where
  "names_directory p = (comps p = [] \<or> last (comps p) = ''.'' \<or> last (comps p) = ''..'')"

text \<open>
  \<open>os.MkdirAll\<close>: the walk of the path creates every directory it misses; it fails
  when it meets a regular file.
\<close>

fun mkdir_walk :: "filesystem \<Rightarrow> string list \<Rightarrow> string list \<Rightarrow> error + filesystem" where
  "mkdir_walk fsys cur [] = Inr fsys"
| "mkdir_walk fsys cur (c # cs) =
     (let d = (if c = ''.'' then cur else if c = ''..'' then butlast cur else cur @ [c]) in
      case lookup fsys d of
        Some (File x) \<Rightarrow> Inl (PathError ''mkdir'' (strings_Join d ''/''))
      | Some Dir \<Rightarrow> mkdir_walk fsys d cs
      | None \<Rightarrow> mkdir_walk (store d Dir fsys) d cs)"

definition os_MkdirAll :: "string \<Rightarrow> filesystem \<Rightarrow> error + filesystem" where
  "os_MkdirAll p fsys =
     (if p = [] then Inl (PathError ''mkdir'' p) else mkdir_walk fsys [] (comps p))"

text \<open>
  \<open>os.Create\<close> truncates or creates a regular file; it fails when the path does not
  resolve (its parent is no directory) or denotes a directory. The handle it returns
  is the name of the node.
\<close>

definition os_Create :: "string \<Rightarrow> filesystem \<Rightarrow> error + (string list \<times> filesystem)" where
  "os_Create p fsys =
     (if names_directory p then Inl (PathError ''open'' p)
      else (case resolve fsys p of
              None \<Rightarrow> Inl (PathError ''open'' p)
            | Some k \<Rightarrow>
                if lookup fsys k = Some Dir then Inl (PathError ''open'' p)
                else Inr (k, store k (File []) fsys)))"

text \<open>\<open>f.WriteString\<close> on a handle: the bytes go behind what the handle wrote before.\<close>

definition WriteString :: "string list \<Rightarrow> string \<Rightarrow> filesystem \<Rightarrow> error + filesystem" where
  "WriteString f s fsys =
     (if io_fault fsys f then Inl (PathError ''write'' (strings_Join f ''/''))
      else (case lookup fsys f of
              Some (File old) \<Rightarrow> Inr (store f (File (old @ s)) fsys)
            | _ \<Rightarrow> Inl (PathError ''write'' (strings_Join f ''/''))))"

definition os_Chmod :: "string \<Rightarrow> filesystem \<Rightarrow> error option" where
  "os_Chmod p fsys =
     (if p = [] then Some (PathError ''chmod'' p)
      else (case resolve fsys p of
              None \<Rightarrow> Some (PathError ''chmod'' p)
            | Some k \<Rightarrow>
                if lookup fsys k = None \<or> io_fault fsys k then Some (PathError ''chmod'' p)
                else None))"

definition os_ReadFile :: "string \<Rightarrow> filesystem \<Rightarrow> error + string" where
  "os_ReadFile p fsys =
     (if p = [] then Inl (PathError ''open'' p)
      else (case resolve fsys p of
              None \<Rightarrow> Inl (PathError ''open'' p)
            | Some k \<Rightarrow>
                (case lookup fsys k of
                   Some (File s) \<Rightarrow> Inr s
                 | _ \<Rightarrow> Inl (PathError ''open'' p))))"

text \<open>\<open>os.Open\<close> succeeds on any existing node; \<open>io.ReadAll\<close> fails on a directory.\<close>

definition os_Open :: "string \<Rightarrow> filesystem \<Rightarrow> error + string list" where
  "os_Open p fsys =
     (if p = [] then Inl (PathError ''open'' p)
      else (case resolve fsys p of
              None \<Rightarrow> Inl (PathError ''open'' p)
            | Some k \<Rightarrow>
                (case lookup fsys k of
                   None \<Rightarrow> Inl (PathError ''open'' p)
                 | Some n \<Rightarrow> Inr k)))"

definition io_ReadAll :: "string list \<Rightarrow> filesystem \<Rightarrow> error + string" where
  "io_ReadAll f fsys =
     (case lookup fsys f of
        Some (File s) \<Rightarrow> Inr s
      | _ \<Rightarrow> Inl (PathError ''read'' (strings_Join f ''/'')))"

text \<open>
  \<open>dir.ReadDir(0)\<close>: the children of a directory, each with its name and whether it is
  a directory.
\<close>

definition is_Dir :: "node \<Rightarrow> bool" where
  "is_Dir n = (case n of Dir \<Rightarrow> True | File s \<Rightarrow> False)"

definition ReadDir :: "string list \<Rightarrow> filesystem \<Rightarrow> error + (string \<times> bool) list" where
  "ReadDir d fsys =
     (case lookup fsys d of
        Some Dir \<Rightarrow>
          Inr (map (\<lambda>(k, n). (last k, is_Dir n))
                 (filter (\<lambda>(k, n). k \<noteq> [] \<and> butlast k = d) (nodes fsys)))
      | _ \<Rightarrow> Inl (PathError ''readdir'' (strings_Join d ''/'')))"

text \<open>
  \<open>os.RemoveAll\<close>, whose error the sidecar never reads. The empty path is left alone,
  and a path that is \<open>.\<close> or ends in \<open>/.\<close> is refused (\<open>endsWithDot\<close>). A path that does
  not resolve removes nothing. Otherwise \<open>RemoveAll\<close> removes the node that the path
  denotes with everything below it; when the last component is \<open>..\<close> (or \<open>.\<close> before
  a trailing slash, or the path is the root) the directory itself cannot be unlinked,
  so its whole content goes and the directory stays.
\<close>

definition endsWithDot :: "string \<Rightarrow> bool" where
  "endsWithDot p =
     (p = ''.'' \<or> (2 \<le> length p \<and> last p = CHR ''.'' \<and> p ! (length p - 2) = CHR ''/''))"

definition os_RemoveAll :: "string \<Rightarrow> filesystem \<Rightarrow> filesystem" where
  "os_RemoveAll p fsys =
     (if p = [] \<or> endsWithDot p then fsys
      else (case resolve fsys p of
              None \<Rightarrow> fsys
            | Some k \<Rightarrow>
                if names_directory p
                then fsys\<lparr>nodes := filter (\<lambda>(d, n). \<not> strict_prefix k d) (nodes fsys)\<rparr>
                else fsys\<lparr>nodes := filter (\<lambda>(d, n). \<not> prefix k d) (nodes fsys)\<rparr>))"

section \<open>Data of the sidecar\<close>

text \<open>
  The fields of the Kubernetes objects that the sidecar reads. \<open>Annotations\<close> is the
  Go map \<open>metadata.Annotations\<close>.
\<close>

record EnvVar =
  Env_Name :: string
  Env_Value :: string

record Container =
  C_Name :: string
  C_Image :: string
  C_Command :: "string list"
  C_Args :: "string list"
  C_Env :: "EnvVar list"

record Pod =
  Pod_Name :: string
  Pod_Namespace :: string
  Pod_UID :: string
  Annotations :: "string \<rightharpoonup> string"
  Containers :: "Container list"

text \<open>
  \<open>RetrievedPodData\<close>: a pod with the config maps, secrets and empty directories of its
  containers. Only \<open>prepareMounts\<close> reads the latter, so their type is left open.
\<close>

record 'd RetrievedPodData =
  RPD_Pod :: Pod
  RPD_Containers :: 'd

record InterLinkConfig =
  DataRootFolder :: string
  BashPath :: string
  Sbatchpath :: string
  Squeuepath :: string
  Scancelpath :: string
  Commandprefix :: string
  Tsocks :: bool
  Tsockslogin :: string
  Tsockspath :: string
  ExportPodData :: bool
  SingularityPrefix :: string

record JidStruct =
  PodUID :: string
  JID :: string
  StartTime :: Time
  EndTime :: Time

record SingularityCommand =
  containerName :: string
  command :: "string list"

text \<open>
  \<open>v1.ContainerState\<close> has three pointer fields of which the sidecar sets exactly one;
  \<open>ExitCode\<close> is an \<open>int32\<close>.
\<close>

datatype ContainerState =
    Waiting
  | Running (Running_StartedAt: Time)
  | Terminated (ExitCode: "32 word") (Terminated_StartedAt: Time) (Terminated_FinishedAt: Time)

record ContainerStatus =
  CS_Name :: string
  CS_State :: ContainerState
  CS_Ready :: bool

record PodStatus =
  PodName :: string
  PS_PodUID :: string
  PodNamespace :: string
  PS_Containers :: "ContainerStatus list"

section \<open>Container environment block (aux.go, prepareEnvs)\<close>

text \<open>The loop \<open>for _, env_var := range container.Env\<close> with its accumulator \<open>env_data\<close>.\<close>

fun env_data_loop :: "string \<Rightarrow> EnvVar list \<Rightarrow> string" where
  "env_data_loop env_data [] = env_data"
| "env_data_loop env_data (env_var # rest) =
     env_data_loop (env_data @ (Env_Name env_var @ ''='' @ Env_Value env_var @ '','')) rest"

text \<open>
  \<open>if last := len(s) - 1; last >= 0 && s[last] == ',' { s = s[:last] }\<close>, used on
  \<open>env_data\<close> here and on \<open>mountedData\<close> in \<open>prepareMounts\<close>.
\<close>

definition strip_last_comma :: "string \<Rightarrow> string" where
  "strip_last_comma s = (if s \<noteq> [] \<and> last s = CHR '','' then butlast s else s)"

text \<open>
  \<open>make([]string, 1)\<close> is a slice of length one holding the empty string, so the
  \<open>append\<close> calls that follow put their tokens behind it.
\<close>

definition prepareEnvs :: "Container \<Rightarrow> string list" where
  "prepareEnvs container =
     (if length (C_Env container) > 0 then
        (let env = replicate 1 [];
             env = env @ [''--env''];
             env_data = env_data_loop [] (C_Env container);
             env_data = strip_last_comma env_data;
             env = (if env_data = [] then [] else env);
             env = env @ [env_data]
         in env)
      else [])"

section \<open>The process and its surroundings\<close>

text \<open>
  The package-level variables \<open>prefix\<close>, \<open>timer\<close> and \<open>cachedStatus\<close>, the registry
  behind \<open>h.JIDs\<close> and the file system make up the state. \<open>calls\<close> records every
  external command that was run, in order, and \<open>ticks\<close> counts the readings of the
  clock.
\<close>

record state =
  prefix_pkg :: string
  timer :: Time
  cachedStatus :: "PodStatus list"
  JIDs :: "string \<rightharpoonup> JidStruct"
  fs :: filesystem
  calls :: "(string \<times> string list) list"
  ticks :: nat

record ExecResult =
  Stdout :: string
  Stderr :: string
  ExecExitCode :: int

text \<open>
  What the surroundings answer: the outcome of the n-th external command, run through
  the shell executor (\<open>Execute\<close>) or through \<open>exec.Command(...).Output()\<close>
  (\<open>Output\<close>), the n-th reading of the clock, the two functions of package \<open>time\<close>
  for the timestamp layout, and the JSON codec.
\<close>

record 'd extern =
  Execute :: "nat \<Rightarrow> string \<Rightarrow> string list \<Rightarrow> ExecResult \<times> error option"
  Output :: "nat \<Rightarrow> string \<Rightarrow> string list \<Rightarrow> error + string"
  Now :: "nat \<Rightarrow> Time"
  time_Parse :: "string \<Rightarrow> error + Time"
  time_Format :: "Time \<Rightarrow> string"
  Unmarshal_pods :: "string \<Rightarrow> error + Pod option list"
  Unmarshal_data :: "string \<Rightarrow> error + 'd RetrievedPodData list"
  Marshal :: "PodStatus list \<Rightarrow> error + string"

definition shell_Execute ::
  "'d extern \<Rightarrow> string \<Rightarrow> string list \<Rightarrow> state \<Rightarrow> (ExecResult \<times> error option) \<times> state" where
  "shell_Execute ext cmd args st =
     (Execute ext (length (calls st)) cmd args, st\<lparr>calls := calls st @ [(cmd, args)]\<rparr>)"

definition exec_Command_Output ::
  "'d extern \<Rightarrow> string \<Rightarrow> string list \<Rightarrow> state \<Rightarrow> (error + string) \<times> state" where
  "exec_Command_Output ext cmd args st =
     (Output ext (length (calls st)) cmd args, st\<lparr>calls := calls st @ [(cmd, args)]\<rparr>)"

definition time_Now :: "'d extern \<Rightarrow> state \<Rightarrow> Time \<times> state" where
  "time_Now ext st = (Now ext (ticks st), st\<lparr>ticks := Suc (ticks st)\<rparr>)"

text \<open>\<open>http.ResponseWriter\<close>: the first status code written stays; \<open>Write\<close> appends.\<close>

record ResponseWriter =
  Header :: "nat option"
  Body :: string

definition WriteHeader :: "nat \<Rightarrow> ResponseWriter \<Rightarrow> ResponseWriter" where
  "WriteHeader code w = (if Header w = None then w\<lparr>Header := Some code\<rparr> else w)"

definition Write :: "string \<Rightarrow> ResponseWriter \<Rightarrow> ResponseWriter" where
  "Write s w = (WriteHeader 200 w)\<lparr>Body := Body w @ s\<rparr>"

definition new_response :: ResponseWriter where
  "new_response = \<lparr>Header = None, Body = []\<rparr>"

definition StatusOK :: nat where
  "StatusOK = 200"

definition StatusInternalServerError :: nat where
  "StatusInternalServerError = 500"

text \<open>How a handler ends: it returns, leaving the response it wrote, or it panics.\<close>

datatype handled = Returned ResponseWriter | Panicked string

definition nil_dereference :: string where
  "nil_dereference = ''invalid memory address or nil pointer dereference''"

definition index_out_of_range :: string where
  "index_out_of_range = ''index out of range''"

abbreviation NL :: string where
  "NL \<equiv> [CHR 0x0A]"

abbreviation DQ :: string where
  "DQ \<equiv> [CHR 0x22]"

definition check_logs :: string where
  "check_logs = ''Check Slurm Sidecar'' @ [CHR 0x27] @ ''s logs''"

section \<open>Registry recovery (aux.go, parsingTimeFromString and LoadJIDs)\<close>

definition parsingTimeFromString :: "'d extern \<Rightarrow> string \<Rightarrow> error + Time" where
  "parsingTimeFromString ext stringTime =
     (let parts = strings_Fields stringTime in
      if length parts \<noteq> 4 then Inl (ErrorString ''invalid timestamp format'')
      else (case time_Parse ext stringTime of
              Inl err \<Rightarrow> Inl err
            | Inr parsedTime \<Rightarrow> Inr parsedTime))"

text \<open>
  The timestamp of one entry: the zero instant when the file cannot be read; otherwise
  what \<open>parsingTimeFromString\<close> returns, which is the zero instant again when it fails.
\<close>

definition read_timestamp :: "'d extern \<Rightarrow> string \<Rightarrow> filesystem \<Rightarrow> Time" where
  "read_timestamp ext file fsys =
     (case os_ReadFile file fsys of
        Inl err \<Rightarrow> 0
      | Inr s \<Rightarrow> (case parsingTimeFromString ext s of
                    Inl err \<Rightarrow> 0
                  | Inr t \<Rightarrow> t))"

text \<open>
  The record built for a directory whose \<open>JobID.jid\<close> was read (lines 102 to 121 of
  the loop body): the timestamps come from the two files beside it.
\<close>

definition recover_entry :: "'d extern \<Rightarrow> string \<Rightarrow> string \<Rightarrow> string \<Rightarrow> filesystem \<Rightarrow> JidStruct" where
  "recover_entry ext path name jid fsys =
     (let podUID = name;
          StartedAt = read_timestamp ext (path @ name @ ''/'' @ ''StartedAt.time'') fsys;
          FinishedAt = read_timestamp ext (path @ name @ ''/'' @ ''FinishedAt.time'') fsys;
          JIDEntry = \<lparr>PodUID = podUID, JID = jid, StartTime = StartedAt, EndTime = FinishedAt\<rparr>
      in JIDEntry)"

text \<open>
  The loop \<open>for _, entry := range entries\<close>; an entry is its name and \<open>IsDir()\<close>. A
  directory whose \<open>JobID.jid\<close> cannot be read makes \<open>LoadJIDs\<close> return the error.
\<close>

fun LoadJIDs_loop ::
  "'d extern \<Rightarrow> string \<Rightarrow> (string \<times> bool) list \<Rightarrow> state \<Rightarrow> unit result \<times> state" where
  "LoadJIDs_loop ext path [] st = (Ok (), st)"
| "LoadJIDs_loop ext path (entry # entries) st =
     (if snd entry then
        (case os_ReadFile (path @ fst entry @ ''/'' @ ''JobID.jid'') (fs st) of
           Inl err \<Rightarrow> (Error err, st)
         | Inr jid \<Rightarrow>
             LoadJIDs_loop ext path entries
               (st\<lparr>JIDs := (JIDs st)(fst entry \<mapsto> recover_entry ext path (fst entry) jid (fs st))\<rparr>))
      else LoadJIDs_loop ext path entries st)"

definition LoadJIDs :: "'d extern \<Rightarrow> InterLinkConfig \<Rightarrow> state \<Rightarrow> unit result \<times> state" where
  "LoadJIDs ext config st =
     (let path = DataRootFolder config in
      case os_Open path (fs st) of
        Inl err \<Rightarrow> (Error err, st)
      | Inr dir \<Rightarrow>
          (case ReadDir dir (fs st) of
             Inl err \<Rightarrow> (Error err, st)
           | Inr entries \<Rightarrow> LoadJIDs_loop ext path entries st))"

section \<open>Script synthesis (aux.go, produceSLURMScript)\<close>

text \<open>
  The first loop over \<open>commands\<close>. \<open>range\<close> hands the body a copy of each element, and
  the body assigns to the copy's field; the slice \<open>commands\<close> itself is what the loop
  leaves behind.
\<close>

definition mpi_range_loop :: "string list \<Rightarrow> SingularityCommand list \<Rightarrow> SingularityCommand list" where
  "mpi_range_loop mpi commands =
     foldl (\<lambda>cmds singularityCommand.
              (let singularityCommand =
                     singularityCommand\<lparr>command := mpi @ command singularityCommand\<rparr>
               in cmds))
       commands commands"

definition tsocks_prefix :: "string \<Rightarrow> InterLinkConfig \<Rightarrow> string" where
  "tsocks_prefix podUID config =
     NL @ NL @ ''min_port=10000'' @
     NL @ ''max_port=65000'' @
     NL @ ''for ((port=$min_port; port<=$max_port; port++))'' @
     NL @ ''do'' @
     NL @ ''  temp=$(ss -tulpn | grep :$port)'' @
     NL @ ''  if [ -z '' @ DQ @ ''$temp'' @ DQ @ '' ]'' @
     NL @ ''  then'' @
     NL @ ''    break'' @
     NL @ ''  fi'' @
     NL @ ''done'' @
     NL @ ''ssh -4 -N -D $port '' @ Tsockslogin config @ '' &'' @
     NL @ ''SSH_PID=$!'' @
     NL @ ''echo '' @ DQ @ ''local = 10.0.0.0/255.0.0.0 '' @ NL @ ''server = 127.0.0.1 '' @ NL @
       ''server_port = $port'' @ DQ @ '' >> .tmp/'' @ podUID @ ''_tsocks.conf'' @
     NL @ ''export TSOCKS_CONF_FILE=.tmp/'' @ podUID @ ''_tsocks.conf && export LD_PRELOAD='' @
       Tsockspath config"

text \<open>The line of one container in \<open>job.sh\<close> (the body of the second loop).\<close>

definition command_line :: "string \<Rightarrow> SingularityCommand \<Rightarrow> string" where
  "command_line path singularityCommand =
     NL @ strings_Join (command singularityCommand) '' '' @
     '' &> '' @ path @ ''/'' @ containerName singularityCommand @ ''.out; '' @
     ''echo $? > '' @ path @ ''/'' @ containerName singularityCommand @ ''.status &''"

definition produceSLURMScript ::
  "string \<Rightarrow> string \<Rightarrow> string \<Rightarrow> (string \<rightharpoonup> string) \<Rightarrow> SingularityCommand list \<Rightarrow>
   InterLinkConfig \<Rightarrow> state \<Rightarrow> string result \<times> state" where
  "produceSLURMScript path podNamespace podUID annotations commands config st =
     (case os_MkdirAll path (fs st) of
        Inl err \<Rightarrow> (Error err, st)
      | Inr fs1 \<Rightarrow>
     (case os_Create (path @ ''/job.sh'') fs1 of
        Inl err \<Rightarrow> (Error err, st\<lparr>fs := fs1\<rparr>)
      | Inr (f, fs2) \<Rightarrow>
     (case os_Chmod (path @ ''/job.sh'') fs2 of
        Some err \<Rightarrow> (Error err, st\<lparr>fs := fs2\<rparr>)
      | None \<Rightarrow>
     (let postfix = [];
          sbatch_flags_from_argo =
            (case annotations ''slurm-job.vk.io/flags'' of
               Some slurm_flags \<Rightarrow> strings_Split slurm_flags CHR '' ''
             | None \<Rightarrow> []);
          commands =
            (case annotations ''slurm-job.vk.io/mpi-flags'' of
               Some mpi_flags \<Rightarrow>
                 (if mpi_flags \<noteq> ''true''
                  then mpi_range_loop
                         ([''mpiexec'', ''-np'', ''$SLURM_NTASKS''] @ strings_Split mpi_flags CHR '' '')
                         commands
                  else commands)
             | None \<Rightarrow> commands);
          sbatch_flags_as_string =
            foldl (\<lambda>acc slurm_flag. acc @ NL @ ''#SBATCH '' @ slurm_flag) [] sbatch_flags_from_argo;
          postfix = (if Tsocks config then postfix @ NL @ NL @ ''kill -15 $SSH_PID &> log2.txt''
                     else postfix);
          prefix1 = (if Tsocks config then prefix_pkg st @ tsocks_prefix podUID config
                     else prefix_pkg st);
          prefix2 = (if Commandprefix config \<noteq> [] then prefix1 @ NL @ Commandprefix config
                     else prefix1);
          prefix3 = (case annotations ''job.vk.io/pre-exec'' of
                       Some preExecAnnotations \<Rightarrow> prefix2 @ NL @ preExecAnnotations
                     | None \<Rightarrow> prefix2);
          sbatch_macros =
            ''#!'' @ BashPath config @
            NL @ ''#SBATCH --job-name='' @ podUID @
            NL @ ''#SBATCH --output='' @ path @ ''/job.out'' @
            sbatch_flags_as_string @
            NL @
            prefix3 @
            NL;
          stringToBeWritten =
            foldl (\<lambda>acc singularityCommand. acc @ command_line path singularityCommand)
              sbatch_macros commands;
          stringToBeWritten = stringToBeWritten @ NL @ postfix;
          st1 = st\<lparr>fs := fs2, prefix_pkg := prefix3\<rparr>
      in case WriteString f stringToBeWritten fs2 of
           Inl err \<Rightarrow> (Error err, st1)
         | Inr fs3 \<Rightarrow> (Ok (path @ ''/job.sh''), st1\<lparr>fs := fs3\<rparr>)))))"

section \<open>Submission (aux.go, SLURMBatchSubmit and handleJID)\<close>

definition SLURMBatchSubmit ::
  "'d extern \<Rightarrow> string \<Rightarrow> InterLinkConfig \<Rightarrow> state \<Rightarrow> string result \<times> state" where
  "SLURMBatchSubmit ext path config st =
     (case shell_Execute ext (Sbatchpath config) [path] st of
        ((execReturn, Some err), st1) \<Rightarrow> (Error err, st1)
      | ((execReturn, None), st1) \<Rightarrow>
          (let stdout = strip_newlines (Stdout execReturn) in
           if Stderr execReturn \<noteq> [] then (Error (ErrorString (Stderr execReturn)), st1)
           else (Ok stdout, st1)))"

text \<open>
  \<open>regexp.MustCompile(`Submitted batch job (?P<jid>\d+)`).FindStringSubmatch\<close>: the
  leftmost place where the literal is followed by a digit; the group takes every digit
  that follows. The result is the whole match and the group, or nil (the empty list).
\<close>

definition jid_literal :: string where
  "jid_literal = ''Submitted batch job ''"

fun FindStringSubmatch :: "string \<Rightarrow> string list" where
  "FindStringSubmatch [] = []"
| "FindStringSubmatch (c # cs) =
     (let digits = takeWhile is_digit (drop (length jid_literal) (c # cs)) in
      if strings_HasPrefix (c # cs) jid_literal \<and> digits \<noteq> []
      then [jid_literal @ digits, digits]
      else FindStringSubmatch cs)"

text \<open>
  \<open>handleJID\<close> indexes the match with \<open>jid[1]\<close> without looking at its length: on a
  nil match the index expression panics, after \<open>os.Create\<close> has made the file.
\<close>

definition handleJID ::
  "string \<Rightarrow> string \<Rightarrow> Pod \<Rightarrow> string \<Rightarrow> state \<Rightarrow> unit result \<times> state" where
  "handleJID podUID output pod path st =
     (let jid = FindStringSubmatch output in
      case os_Create (path @ ''/JobID.jid'') (fs st) of
        Inl err \<Rightarrow> (Error err, st)
      | Inr (f, fs1) \<Rightarrow>
          (if \<not> 1 < length jid
           then (Panic index_out_of_range, st\<lparr>fs := fs1\<rparr>)
           else (case WriteString f (jid ! 1) fs1 of
                   Inl err \<Rightarrow> (Error err, st\<lparr>fs := fs1\<rparr>)
                 | Inr fs2 \<Rightarrow>
                     (Ok (), st\<lparr>fs := fs2,
                                JIDs := (JIDs st)(podUID \<mapsto>
                                  \<lparr>PodUID = Pod_UID pod, JID = jid ! 1,
                                   StartTime = 0, EndTime = 0\<rparr>)\<rparr>))))"

section \<open>Deletion (aux.go, removeJID and deleteContainer)\<close>

definition removeJID :: "string \<Rightarrow> state \<Rightarrow> state" where
  "removeJID podUID st = st\<lparr>JIDs := (JIDs st)(podUID := None)\<rparr>"

text \<open>
  \<open>(*JIDs)[podUID].JID\<close> dereferences the pointer stored for the pod; for a key that
  the map does not hold the pointer is nil and the dereference panics.
\<close>

definition deleteContainer ::
  "'d extern \<Rightarrow> string \<Rightarrow> string \<Rightarrow> InterLinkConfig \<Rightarrow> state \<Rightarrow> unit result \<times> state" where
  "deleteContainer ext podUID path config st =
     (case JIDs st podUID of
        None \<Rightarrow> (Panic nil_dereference, st)
      | Some jidStruct \<Rightarrow>
          (case exec_Command_Output ext (Scancelpath config) [JID jidStruct] st of
             (Inl err, st1) \<Rightarrow> (Error err, st1)
           | (Inr out, st1) \<Rightarrow>
               (let st2 = st1\<lparr>fs := os_RemoveAll (path @ ''/'' @ podUID) (fs st1)\<rparr>;
                    st3 = removeJID podUID st2
                in (Ok (), st3))))"

section \<open>The Submit handler\<close>

text \<open>
  A loop of a handler goes on to its next round with new values of the variables it
  changes (\<open>Next\<close>), or makes the handler end there (\<open>Stop\<close>).
\<close>

datatype 'a step = Next 'a | Stop handled

definition reply :: "nat \<Rightarrow> string \<Rightarrow> ResponseWriter \<Rightarrow> ResponseWriter" where
  "reply code msg w = Write msg (WriteHeader code w)"

text \<open>Lines 70 to 79 of the handler: the image token of one container.\<close>

definition image_reference :: "(string \<rightharpoonup> string) \<Rightarrow> Container \<Rightarrow> string" where
  "image_reference annotations container =
     (let image = C_Image container in
      if strings_HasPrefix (C_Image container) ''/'' then
        (case annotations ''slurm-job.vk.io/image-root'' of
           Some image_uri \<Rightarrow> image_uri @ C_Image container
         | None \<Rightarrow> image)
      else C_Image container)"

definition commstr1 :: "InterLinkConfig \<Rightarrow> Pod \<Rightarrow> string list" where
  "commstr1 config pod =
     [''singularity'', ''exec'', ''--writable-tmpfs'', ''--nv'', ''-H'',
      ''${HOME}/'' @ DataRootFolder config @ Pod_UID pod @ '':${HOME}'']"

text \<open>The argument vector of one container, given its environment and mount blocks.\<close>

definition singularity_command ::
  "InterLinkConfig \<Rightarrow> Pod \<Rightarrow> Container \<Rightarrow> string list \<Rightarrow> string list \<Rightarrow> string list" where
  "singularity_command config pod container envs mounts =
     (let image = image_reference (Annotations pod) container;
          singularity_command = commstr1 config pod @ envs;
          singularity_command = singularity_command @ mounts;
          singularity_command = singularity_command @ [image];
          singularity_command = singularity_command @ C_Command container;
          singularity_command = singularity_command @ C_Args container
      in singularity_command)"

text \<open>
  \<open>prepareMounts\<close> (with \<open>mountData\<close> below it) is a parameter of the handler: it takes
  the working path, the container, the request and the configuration, may change the
  state (files, the package-level prefix) and returns the mount block or an error.
\<close>

type_synonym 'd mounts_fun =
  "string \<Rightarrow> Container \<Rightarrow> 'd RetrievedPodData list \<Rightarrow> InterLinkConfig \<Rightarrow> state \<Rightarrow>
   string list result \<times> state"

fun submit_containers ::
  "'d mounts_fun \<Rightarrow> InterLinkConfig \<Rightarrow> InterLinkConfig \<Rightarrow> 'd RetrievedPodData list \<Rightarrow> Pod \<Rightarrow>
   string \<Rightarrow> Container list \<Rightarrow> SingularityCommand list \<Rightarrow> state \<Rightarrow>
   SingularityCommand list step \<times> state" where
  "submit_containers prepareMounts config configInst req pod filesPath [] singularity_command_pod st =
     (Next singularity_command_pod, st)"
| "submit_containers prepareMounts config configInst req pod filesPath (container # containers)
     singularity_command_pod st =
     (let singularityPrefix =
            (case Annotations pod ''job.vk.io/singularity-commands'' of
               Some singularityAnnotation \<Rightarrow> SingularityPrefix configInst @ '' '' @ singularityAnnotation
             | None \<Rightarrow> SingularityPrefix configInst);
          envs = prepareEnvs container
      in case prepareMounts filesPath container req config st of
           (Error err, st1) \<Rightarrow>
             (Stop (Returned (reply StatusInternalServerError
                      (''Error prepairing mounts. '' @ check_logs) new_response)),
              st1\<lparr>fs := os_RemoveAll filesPath (fs st1)\<rparr>)
         | (Panic msg, st1) \<Rightarrow> (Stop (Panicked msg), st1)
         | (Ok mounts, st1) \<Rightarrow>
             submit_containers prepareMounts config configInst req pod filesPath containers
               (singularity_command_pod @
                  [\<lparr>containerName = C_Name container,
                    command = singularity_command config pod container envs mounts\<rparr>])
               st1)"

text \<open>The body of the loop \<open>for _, data := range req\<close>.\<close>

definition submit_pod ::
  "'d extern \<Rightarrow> 'd mounts_fun \<Rightarrow> InterLinkConfig \<Rightarrow> InterLinkConfig \<Rightarrow> 'd RetrievedPodData list \<Rightarrow>
   'd RetrievedPodData \<Rightarrow> state \<Rightarrow> unit step \<times> state" where
  "submit_pod ext prepareMounts config configInst req data st =
     (let pod = RPD_Pod data;
          filesPath = DataRootFolder config @ Pod_Namespace pod @ ''-'' @ Pod_UID pod
      in case submit_containers prepareMounts config configInst req pod filesPath
                (Containers pod) [] st of
           (Stop h, st1) \<Rightarrow> (Stop h, st1)
         | (Next singularity_command_pod, st1) \<Rightarrow>
      (case produceSLURMScript filesPath (Pod_Namespace pod) (Pod_UID pod) (Annotations pod)
              singularity_command_pod config st1 of
         (Error err, st2) \<Rightarrow>
           (Stop (Returned (reply StatusInternalServerError
                    (''Error producing Slurm script. '' @ check_logs) new_response)),
            st2\<lparr>fs := os_RemoveAll filesPath (fs st2)\<rparr>)
       | (Panic msg, st2) \<Rightarrow> (Stop (Panicked msg), st2)
       | (Ok path, st2) \<Rightarrow>
      (case SLURMBatchSubmit ext path config st2 of
         (Error err, st3) \<Rightarrow>
           (Stop (Returned (reply StatusInternalServerError
                    (''Error submitting Slurm script. '' @ check_logs) new_response)),
            st3\<lparr>fs := os_RemoveAll filesPath (fs st3)\<rparr>)
       | (Panic msg, st3) \<Rightarrow> (Stop (Panicked msg), st3)
       | (Ok out, st3) \<Rightarrow>
      (case handleJID (Pod_UID pod) out pod filesPath st3 of
         (Error err, st4) \<Rightarrow>
           (let w = reply StatusInternalServerError
                      (''Error handling JID. '' @ check_logs) new_response;
                st5 = st4\<lparr>fs := os_RemoveAll filesPath (fs st4)\<rparr>
            in case deleteContainer ext (Pod_UID pod) filesPath config st5 of
                 (Panic msg, st6) \<Rightarrow> (Stop (Panicked msg), st6)
               | (r, st6) \<Rightarrow> (Stop (Returned w), st6))
       | (Panic msg, st4) \<Rightarrow> (Stop (Panicked msg), st4)
       | (Ok u, st4) \<Rightarrow> (Next (), st4)))))"

fun submit_pods ::
  "'d extern \<Rightarrow> 'd mounts_fun \<Rightarrow> InterLinkConfig \<Rightarrow> InterLinkConfig \<Rightarrow> 'd RetrievedPodData list \<Rightarrow>
   'd RetrievedPodData list \<Rightarrow> state \<Rightarrow> unit step \<times> state" where
  "submit_pods ext prepareMounts config configInst req [] st = (Next (), st)"
| "submit_pods ext prepareMounts config configInst req (data # rest) st =
     (case submit_pod ext prepareMounts config configInst req data st of
        (Stop h, st1) \<Rightarrow> (Stop h, st1)
      | (Next u, st1) \<Rightarrow> submit_pods ext prepareMounts config configInst req rest st1)"

text \<open>
  The handler; \<open>body\<close> is what \<open>io.ReadAll(r.Body)\<close> returned and \<open>configInst\<close> is
  \<open>commonIL.InterLinkConfigInst\<close>.
\<close>

definition SubmitHandler ::
  "'d extern \<Rightarrow> 'd mounts_fun \<Rightarrow> InterLinkConfig \<Rightarrow> InterLinkConfig \<Rightarrow> error + string \<Rightarrow> state \<Rightarrow>
   handled \<times> state" where
  "SubmitHandler ext prepareMounts config configInst body st =
     (let statusCode = StatusOK;
          creating = ''Some errors occurred while creating container. '' @ check_logs
      in case body of
           Inl err \<Rightarrow> (Returned (reply StatusInternalServerError creating new_response), st)
         | Inr bodyBytes \<Rightarrow>
             (case Unmarshal_data ext bodyBytes of
                Inl err \<Rightarrow> (Returned (reply StatusInternalServerError creating new_response), st)
              | Inr req \<Rightarrow>
                  (case submit_pods ext prepareMounts config configInst req req st of
                     (Stop h, st1) \<Rightarrow> (h, st1)
                   | (Next u, st1) \<Rightarrow>
                       (let w = WriteHeader statusCode new_response in
                        if statusCode \<noteq> StatusOK
                        then (Returned (Write (''Some errors occurred while creating containers. '' @
                                check_logs) w), st1)
                        else (Returned (Write ''Containers created'' w), st1)))))"

section \<open>The Status handler\<close>

text \<open>
  \<open>regexp.MustCompile(`(CD|CG|F|PD|PR|R|S|ST)`).FindString\<close>: the leftmost place where
  an alternative matches, and there the first alternative, in the order written, that
  does; the empty string when there is none.
\<close>

definition state_codes :: "string list" where
  "state_codes = [''CD'', ''CG'', ''F'', ''PD'', ''PR'', ''R'', ''S'', ''ST'']"

fun FindString :: "string \<Rightarrow> string" where
  "FindString [] = []"
| "FindString (c # cs) =
     (case find (\<lambda>code. strings_HasPrefix (c # cs) code) state_codes of
        Some code \<Rightarrow> code
      | None \<Rightarrow> FindString cs)"

text \<open>The local variables of the handler that the loop over the pods changes.\<close>

record poll =
  P_resp :: "PodStatus list"
  P_w :: ResponseWriter
  P_statusCode :: nat
  P_timeNow :: Time

text \<open>
  The two conditions in which a round of the loop finds the response: the status is
  still 200 and nothing was written, or the status 500 was written.
\<close>

definition response_consistent :: "poll \<Rightarrow> bool" where
  "response_consistent p =
     (if P_statusCode p = StatusOK then P_w p = new_response
      else P_statusCode p = StatusInternalServerError \<and> Header (P_w p) = Some 500)"

text \<open>The texts that Branch B and the end of the handler write to the response.\<close>

definition retrieving_status_msg :: string where
  "retrieving_status_msg = ''Error retrieving container status. '' @ check_logs"

definition reading_status_msg :: string where
  "reading_status_msg = ''Error reading container status. '' @ check_logs"

definition converting_status_msg :: string where
  "converting_status_msg = ''Error converting container status.. '' @ check_logs"

definition deleting_msg :: string where
  "deleting_msg =
     ''Some errors occurred deleting containers. Check Docker Sidecar'' @ [CHR 0x27] @ ''s logs''"

text \<open>
  Branch B, the loop \<open>for _, ct := range pod.Spec.Containers\<close>. A file that cannot be
  opened or read ends the handler; a content that is no integer makes the handler
  write the status 500 and go on with the exit code 500.
\<close>

fun status_containers ::
  "string \<Rightarrow> filesystem \<Rightarrow> Container list \<Rightarrow> ContainerStatus list \<Rightarrow> poll \<Rightarrow>
   (ContainerStatus list \<times> poll) step" where
  "status_containers path fsys [] containerStatuses p = Next (containerStatuses, p)"
| "status_containers path fsys (ct # cts) containerStatuses p =
     (case os_Open (path @ ''/'' @ C_Name ct @ ''.status'') fsys of
        Inl err \<Rightarrow>
          Stop (Returned (reply StatusInternalServerError retrieving_status_msg (P_w p)))
      | Inr file \<Rightarrow>
     (case io_ReadAll file fsys of
        Inl err \<Rightarrow>
          Stop (Returned (reply StatusInternalServerError reading_status_msg (P_w p)))
      | Inr statusb \<Rightarrow>
     (case Atoi (strip_newlines statusb) of
        Inl err \<Rightarrow>
          status_containers path fsys cts
            (containerStatuses @
               [\<lparr>CS_Name = C_Name ct, CS_State = Terminated (of_int 500) 0 0, CS_Ready = False\<rparr>])
            (p\<lparr>P_statusCode := StatusInternalServerError,
               P_w := reply StatusInternalServerError converting_status_msg (P_w p)\<rparr>)
      | Inr status \<Rightarrow>
          status_containers path fsys cts
            (containerStatuses @
               [\<lparr>CS_Name = C_Name ct, CS_State = Terminated (of_int status) 0 0, CS_Ready = False\<rparr>])
            p)))"

text \<open>
  Branch A. The cases of the switch come in three shapes: the job has ended (CD, F, PR,
  ST and the default), it runs (CG, R), it waits (PD, S). \<open>j\<close> is the record that
  \<open>(*h.JIDs)[uid]\<close> points to when the case starts. Each case reads
  \<open>pod.Spec.Containers[0]\<close>, which panics for a pod without containers, and then the
  instants of the record.
\<close>

definition pod_status :: "Pod \<Rightarrow> ContainerStatus list \<Rightarrow> PodStatus" where
  "pod_status pod containerStatuses =
     \<lparr>PodName = Pod_Name pod, PS_PodUID = Pod_UID pod, PodNamespace = Pod_Namespace pod,
      PS_Containers = containerStatuses\<rparr>"

definition write_timestamp ::
  "'d extern \<Rightarrow> string \<Rightarrow> string \<Rightarrow> poll \<Rightarrow> state \<Rightarrow> unit step \<times> state" where
  "write_timestamp ext file msg p st =
     (case os_Create file (fs st) of
        Inl err \<Rightarrow> (Stop (Returned (reply StatusInternalServerError msg (P_w p))), st)
      | Inr (f, fs1) \<Rightarrow>
          (Next (),
           st\<lparr>fs := (case WriteString f (time_Format ext (P_timeNow p)) fs1 of
                       Inl err \<Rightarrow> fs1
                     | Inr fs2 \<Rightarrow> fs2)\<rparr>))"

definition ended_case ::
  "'d extern \<Rightarrow> string \<Rightarrow> Pod \<Rightarrow> JidStruct \<Rightarrow> poll \<Rightarrow> state \<Rightarrow> poll step \<times> state" where
  "ended_case ext path pod j p st =
     (let uid = Pod_UID pod in
      case (if IsZero (EndTime j)
            then write_timestamp ext (path @ ''/FinishedAt.time'')
                   (''Error writing end timestamp... '' @ check_logs) p
                   (st\<lparr>JIDs := (JIDs st)(uid \<mapsto> j\<lparr>EndTime := P_timeNow p\<rparr>)\<rparr>)
            else (Next (), st)) of
        (Stop h, st1) \<Rightarrow> (Stop h, st1)
      | (Next u, st1) \<Rightarrow>
          (case Containers pod of
             [] \<Rightarrow> (Stop (Panicked index_out_of_range), st1)
           | c # cs \<Rightarrow>
               (case JIDs st1 uid of
                  None \<Rightarrow> (Stop (Panicked nil_dereference), st1)
                | Some j1 \<Rightarrow>
                    (Next (p\<lparr>P_resp := P_resp p @
                       [pod_status pod
                          [\<lparr>CS_Name = C_Name c,
                            CS_State = Terminated 0 (StartTime j1) (EndTime j1),
                            CS_Ready = False\<rparr>]]\<rparr>), st1))))"

definition running_case ::
  "'d extern \<Rightarrow> string \<Rightarrow> Pod \<Rightarrow> JidStruct \<Rightarrow> poll \<Rightarrow> state \<Rightarrow> poll step \<times> state" where
  "running_case ext path pod j p st =
     (let uid = Pod_UID pod in
      case (if IsZero (StartTime j)
            then write_timestamp ext (path @ ''/StartedAt.time'')
                   (''Error writing start timestamp... '' @ check_logs) p
                   (st\<lparr>JIDs := (JIDs st)(uid \<mapsto> j\<lparr>StartTime := P_timeNow p\<rparr>)\<rparr>)
            else (Next (), st)) of
        (Stop h, st1) \<Rightarrow> (Stop h, st1)
      | (Next u, st1) \<Rightarrow>
          (case Containers pod of
             [] \<Rightarrow> (Stop (Panicked index_out_of_range), st1)
           | c # cs \<Rightarrow>
               (case JIDs st1 uid of
                  None \<Rightarrow> (Stop (Panicked nil_dereference), st1)
                | Some j1 \<Rightarrow>
                    (Next (p\<lparr>P_resp := P_resp p @
                       [pod_status pod
                          [\<lparr>CS_Name = C_Name c, CS_State = Running (StartTime j1),
                            CS_Ready = True\<rparr>]]\<rparr>),
                     st1))))"

definition waiting_case :: "Pod \<Rightarrow> poll \<Rightarrow> state \<Rightarrow> poll step \<times> state" where
  "waiting_case pod p st =
     (case Containers pod of
        [] \<Rightarrow> (Stop (Panicked index_out_of_range), st)
      | c # cs \<Rightarrow>
          (Next (p\<lparr>P_resp := P_resp p @
             [pod_status pod [\<lparr>CS_Name = C_Name c, CS_State = Waiting, CS_Ready = False\<rparr>]]\<rparr>),
           st))"

text \<open>
  The body of the loop \<open>for _, pod := range req\<close>. The request is a list of pointers;
  a nil element panics at \<open>pod.UID\<close>. The registry is read with
  \<open>(*h.JIDs)[uid].JID\<close> to build the arguments of the query, before the query runs.
\<close>

definition status_pod ::
  "'d extern \<Rightarrow> InterLinkConfig \<Rightarrow> Pod option \<Rightarrow> poll \<Rightarrow> state \<Rightarrow> poll step \<times> state" where
  "status_pod ext config podp p st =
     (case podp of
        None \<Rightarrow> (Stop (Panicked nil_dereference), st)
      | Some pod \<Rightarrow>
     (let uid = Pod_UID pod;
          path = DataRootFolder config @ Pod_Namespace pod @ ''-'' @ Pod_UID pod
      in case JIDs st uid of
           None \<Rightarrow> (Stop (Panicked nil_dereference), st)
         | Some j \<Rightarrow>
     (case shell_Execute ext (Squeuepath config) [''--noheader'', ''-a'', ''-j '' @ JID j] st of
        ((execReturn, ignored), st1) \<Rightarrow>
     (case time_Now ext st1 of
        (now, st2) \<Rightarrow>
     (let p1 = p\<lparr>P_timeNow := now\<rparr> in
      if Stderr execReturn \<noteq> [] then
        (case status_containers path (fs st2) (Containers pod) [] p1 of
           Stop h \<Rightarrow> (Stop h, st2)
         | Next (containerStatuses, p2) \<Rightarrow>
             (Next (p2\<lparr>P_resp := P_resp p2 @ [pod_status pod containerStatuses]\<rparr>), st2))
      else
        (let match = FindString (Stdout execReturn) in
         if match = ''CD'' then ended_case ext path pod j p1 st2
         else if match = ''CG'' then running_case ext path pod j p1 st2
         else if match = ''F'' then ended_case ext path pod j p1 st2
         else if match = ''PD'' then waiting_case pod p1 st2
         else if match = ''PR'' then ended_case ext path pod j p1 st2
         else if match = ''R'' then running_case ext path pod j p1 st2
         else if match = ''S'' then waiting_case pod p1 st2
         else if match = ''ST'' then ended_case ext path pod j p1 st2
         else ended_case ext path pod j p1 st2))))))"

fun status_pods ::
  "'d extern \<Rightarrow> InterLinkConfig \<Rightarrow> Pod option list \<Rightarrow> poll \<Rightarrow> state \<Rightarrow> poll step \<times> state" where
  "status_pods ext config [] p st = (Next p, st)"
| "status_pods ext config (podp # rest) p st =
     (case status_pod ext config podp p st of
        (Stop h, st1) \<Rightarrow> (Stop h, st1)
      | (Next p1, st1) \<Rightarrow> status_pods ext config rest p1 st1)"

text \<open>The end of the handler, from \<open>w.WriteHeader(statusCode)\<close> on.\<close>

definition write_response :: "'d extern \<Rightarrow> nat \<Rightarrow> PodStatus list \<Rightarrow> ResponseWriter \<Rightarrow> ResponseWriter" where
  "write_response ext statusCode resp w =
     (let w1 = WriteHeader statusCode w in
      if statusCode \<noteq> StatusOK
      then Write deleting_msg w1
      else (case Marshal ext resp of
              Inl err \<Rightarrow>
                Write (''Some errors occurred while retrieving container status. '' @ check_logs)
                  (WriteHeader statusCode w1)
            | Inr bodyBytes \<Rightarrow> Write bodyBytes w1))"

definition StatusHandler ::
  "'d extern \<Rightarrow> InterLinkConfig \<Rightarrow> error + string \<Rightarrow> state \<Rightarrow> handled \<times> state" where
  "StatusHandler ext config body st =
     (let retrieving = ''Some errors occurred while retrieving container status. '' @ check_logs
      in case time_Now ext st of
           (timeNow, st0) \<Rightarrow>
      (case body of
         Inl err \<Rightarrow> (Returned (reply StatusInternalServerError retrieving new_response), st0)
       | Inr bodyBytes \<Rightarrow>
           if Second * 10 \<le> time_Sub timeNow (timer st0) then
             (case Unmarshal_pods ext bodyBytes of
                Inl err \<Rightarrow>
                  (Returned (reply StatusInternalServerError retrieving new_response), st0)
              | Inr req \<Rightarrow>
                  (case shell_Execute ext ''squeue'' [''--me''] st0 of
                     ((execReturn, ignored), st1) \<Rightarrow>
                       if Stderr execReturn \<noteq> [] then
                         (Returned (reply StatusInternalServerError
                            (''Error executing Squeue. '' @ check_logs) new_response), st1)
                       else
                         (case status_pods ext config req
                                 \<lparr>P_resp = [], P_w = new_response, P_statusCode = StatusOK,
                                  P_timeNow = timeNow\<rparr> st1 of
                            (Stop h, st2) \<Rightarrow> (h, st2)
                          | (Next p, st2) \<Rightarrow>
                              (case time_Now ext (st2\<lparr>cachedStatus := P_resp p\<rparr>) of
                                 (now, st3) \<Rightarrow>
                                   (Returned (write_response ext (P_statusCode p) (P_resp p) (P_w p)),
                                    st3\<lparr>timer := now\<rparr>)))))
           else
             (Returned (write_response ext StatusOK (cachedStatus st0) new_response), st0)))"

section \<open>Example inputs\<close>

text \<open>
  A configuration with the data root \<open>data/\<close>, a pod \<open>u1\<close> in namespace \<open>ns\<close> with one
  container \<open>c\<close>, and surroundings in which \<open>sbatch\<close> accepts the job, the coarse
  \<open>squeue --me\<close> answers silently and the query for one job reports on stderr that it
  does not know the job.
\<close>

definition ex_config :: InterLinkConfig where
  "ex_config =
     \<lparr>DataRootFolder = ''data/'', BashPath = ''/bin/bash'', Sbatchpath = ''sbatch'',
      Squeuepath = ''squeue'', Scancelpath = ''scancel'', Commandprefix = [], Tsocks = False,
      Tsockslogin = [], Tsockspath = [], ExportPodData = False, SingularityPrefix = []\<rparr>"

definition ex_container :: Container where
  "ex_container =
     \<lparr>C_Name = ''c'', C_Image = ''ubuntu'', C_Command = [''echo''], C_Args = [''hi''], C_Env = []\<rparr>"

definition ex_container_d :: Container where
  "ex_container_d =
     \<lparr>C_Name = ''d'', C_Image = ''/img/tool.sif'', C_Command = [], C_Args = [], C_Env = []\<rparr>"

definition ex_pod :: Pod where
  "ex_pod =
     \<lparr>Pod_Name = ''p'', Pod_Namespace = ''ns'', Pod_UID = ''u1'', Annotations = Map.empty,
      Containers = [ex_container]\<rparr>"

definition ex_jid :: JidStruct where
  "ex_jid = \<lparr>PodUID = ''u1'', JID = ''42'', StartTime = 0, EndTime = 0\<rparr>"

definition no_fault :: "string list \<Rightarrow> bool" where
  "no_fault c = False"

definition ex_fs :: filesystem where
  "ex_fs =
     \<lparr>nodes = [([''data''], Dir),
               ([''data'', ''ns-u1''], Dir),
               ([''data'', ''ns-u1'', ''JobID.jid''], File ''42''),
               ([''data'', ''ns-u1'', ''c.status''], File (''0'' @ NL)),
               ([''data'', ''ns-u1'', ''d.status''], File ''killed''),
               ([''data'', ''ns-u1'', ''u1''], Dir),
               ([''data'', ''ns-u1'', ''u1'', ''scratch''], File ''x'')],
      io_fault = no_fault\<rparr>"

text \<open>The same tree without the status file of the container.\<close>

definition ex_fs_no_status :: filesystem where
  "ex_fs_no_status =
     \<lparr>nodes = [([''data''], Dir),
               ([''data'', ''ns-u1''], Dir),
               ([''data'', ''ns-u1'', ''JobID.jid''], File ''42'')],
      io_fault = no_fault\<rparr>"

text \<open>
  A data root with three working directories: \<open>b\<close> has only \<open>JobID.jid\<close>, \<open>a\<close> has
  no file at all, \<open>z\<close> has \<open>JobID.jid\<close>.
\<close>

definition recovery_fs :: filesystem where
  "recovery_fs =
     \<lparr>nodes = [([''data''], Dir),
               ([''data'', ''b''], Dir),
               ([''data'', ''b'', ''JobID.jid''], File ''7''),
               ([''data'', ''a''], Dir),
               ([''data'', ''z''], Dir),
               ([''data'', ''z'', ''JobID.jid''], File ''9'')],
      io_fault = no_fault\<rparr>"

definition empty_fs :: filesystem where
  "empty_fs = \<lparr>nodes = [], io_fault = no_fault\<rparr>"

definition ex_state :: state where
  "ex_state =
     \<lparr>prefix_pkg = [], timer = 0, cachedStatus = [], JIDs = [''u1'' \<mapsto> ex_jid], fs = ex_fs,
      calls = [], ticks = 0\<rparr>"

definition fresh_state :: state where
  "fresh_state =
     \<lparr>prefix_pkg = [], timer = 0, cachedStatus = [], JIDs = Map.empty, fs = empty_fs,
      calls = [], ticks = 0\<rparr>"

definition ex_Execute :: "nat \<Rightarrow> string \<Rightarrow> string list \<Rightarrow> ExecResult \<times> error option" where
  "ex_Execute n cmd args =
     (if cmd = ''sbatch''
      then (\<lparr>Stdout = ''Submitted batch job 12345'' @ NL, Stderr = [], ExecExitCode = 0\<rparr>, None)
      else if args = [''--me'']
      then (\<lparr>Stdout = [], Stderr = [], ExecExitCode = 0\<rparr>, None)
      else (\<lparr>Stdout = [], Stderr = ''slurm_load_jobs error: Invalid job id specified'',
             ExecExitCode = 1\<rparr>, None))"

definition ex_extern :: "unit extern" where
  "ex_extern =
     \<lparr>Execute = ex_Execute,
      Output = (\<lambda>n cmd args. Inr []),
      Now = (\<lambda>n. 100 * Second + int n),
      time_Parse = (\<lambda>s. Inl (ParseError s)),
      time_Format = (\<lambda>t. ''instant''),
      Unmarshal_pods = (\<lambda>s. Inr [Some ex_pod]),
      Unmarshal_data = (\<lambda>s. Inr [\<lparr>RPD_Pod = ex_pod, RPD_Containers = ()\<rparr>]),
      Marshal = (\<lambda>r. Inr (concat (map PS_PodUID r)))\<rparr>"

text \<open>The pod with a second container \<open>d\<close>, whose status file holds no integer.\<close>

definition two_container_pod :: Pod where
  "two_container_pod = ex_pod\<lparr>Containers := [ex_container, ex_container_d]\<rparr>"

text \<open>The same surroundings with a request that decodes to the pod with two containers.\<close>

definition two_container_extern :: "unit extern" where
  "two_container_extern = ex_extern\<lparr>Unmarshal_pods := (\<lambda>s. Inr [Some two_container_pod])\<rparr>"

text \<open>A \<open>prepareMounts\<close> for a pod without volumes: no mount block, no change.\<close>

definition no_mounts :: "unit mounts_fun" where
  "no_mounts filesPath container req config st = (Ok [], st)"

section \<open>Properties of prepareEnvs\<close>

lemma env_data_loop_concat:
  "env_data_loop acc es =
     acc @ concat (map (\<lambda>e. Env_Name e @ ''='' @ Env_Value e @ '','') es)"
  by (induction es arbitrary: acc) simp_all

lemma concat_pairs_Join:
  "es \<noteq> [] \<Longrightarrow>
   concat (map (\<lambda>e. Env_Name e @ ''='' @ Env_Value e @ '','') es) =
     strings_Join (map (\<lambda>e. Env_Name e @ ''='' @ Env_Value e) es) '','' @ '',''"
proof (induction es)
  case Nil
  then show ?case by simp
next
  case (Cons e es)
  show ?case
  proof (cases es)
    case Nil
    then show ?thesis by simp
  next
    case (Cons e' es')
    with Cons.IH show ?thesis by simp
  qed
qed

lemma prepareEnvs_general:
  "prepareEnvs container =
     (if C_Env container = [] then []
      else [[], ''--env'',
            strings_Join (map (\<lambda>e. Env_Name e @ ''='' @ Env_Value e) (C_Env container)) '',''])"
proof (cases "C_Env container")
  case Nil
  then show ?thesis by (simp add: prepareEnvs_def)
next
  case (Cons e es')
  define es where "es = C_Env container"
  define joined where "joined = strings_Join (map (\<lambda>e. Env_Name e @ ''='' @ Env_Value e) es) '',''"
  have ne: "es \<noteq> []" using Cons by (simp add: es_def)
  have nonempty: "joined \<noteq> []"
    unfolding joined_def using Cons by (cases es') (simp_all add: es_def)
  have "env_data_loop [] es = joined @ '',''"
    unfolding joined_def env_data_loop_concat using concat_pairs_Join [OF ne] by simp
  then have "strip_last_comma (env_data_loop [] es) = joined"
    by (simp add: strip_last_comma_def)
  then show ?thesis
    using ne nonempty by (simp add: prepareEnvs_def Let_def joined_def es_def)
qed

text \<open>
  C8. For a container with the environment \<open>A=1\<close>, \<open>B=2\<close>, the claim expects the vector
  \<open>--env\<close>, \<open>A=1,B=2\<close>. The code returns three tokens: the empty string left by
  \<open>make([]string, 1)\<close>, then \<open>--env\<close>, then the joined pairs.
\<close>

theorem prepareEnvs_leading_empty_token:
  "prepareEnvs (ex_container\<lparr>C_Env := [\<lparr>Env_Name = ''A'', Env_Value = ''1''\<rparr>,
                                        \<lparr>Env_Name = ''B'', Env_Value = ''2''\<rparr>]\<rparr>)
     = ['''', ''--env'', ''A=1,B=2'']
   \<and> prepareEnvs (ex_container\<lparr>C_Env := [\<lparr>Env_Name = ''A'', Env_Value = ''1''\<rparr>,
                                          \<lparr>Env_Name = ''B'', Env_Value = ''2''\<rparr>]\<rparr>)
     \<noteq> [''--env'', ''A=1,B=2'']"
  by (simp add: prepareEnvs_def strip_last_comma_def ex_container_def)

section \<open>Paths\<close>

lemma split_when_nonempty: "split_when p s \<noteq> []"
  by (induction s) (auto split: list.splits)

lemma split_when_append:
  "p c \<Longrightarrow> split_when p (a @ c # b) = split_when p a @ split_when p b"
proof (induction a)
  case Nil
  then show ?case by simp
next
  case (Cons x a)
  then show ?case
    using split_when_nonempty [of p a]
    by (cases "split_when p a") (auto split: list.splits)
qed

lemma split_when_none: "\<forall>c \<in> set s. \<not> p c \<Longrightarrow> split_when p s = [s]"
  by (induction s) auto

lemma comps_Nil: "comps [] = []"
  by (simp add: comps_def strings_Split_def)

lemma comps_append: "comps (a @ CHR ''/'' # b) = comps a @ comps b"
  by (simp add: comps_def strings_Split_def split_when_append)

lemma comps_plain: "u \<noteq> [] \<Longrightarrow> CHR ''/'' \<notin> set u \<Longrightarrow> comps u = [u]"
proof -
  assume "u \<noteq> []" and "CHR ''/'' \<notin> set u"
  then have "\<forall>c \<in> set u. \<not> c = CHR ''/''" by auto
  then have "split_when (\<lambda>c. c = CHR ''/'') u = [u]" by (rule split_when_none)
  with \<open>u \<noteq> []\<close> show ?thesis by (simp add: comps_def strings_Split_def)
qed

lemma walk_append:
  "walk fsys cur (xs @ ys) =
     (case walk fsys cur xs of None \<Rightarrow> None | Some k \<Rightarrow> walk fsys k ys)"
  by (induction xs arbitrary: cur) auto

lemma walk_cong:
  "(\<And>d. (lookup fs1 d = Some Dir) = (lookup fs2 d = Some Dir)) \<Longrightarrow>
   walk fs1 cur cs = walk fs2 cur cs"
  by (induction cs arbitrary: cur) auto

lemma lookup_store:
  "lookup (store c n fsys) d =
     (if d = [] then Some Dir else if d = c then Some n else lookup fsys d)"
  by (simp add: lookup_def store_def update_conv')

lemma lookup_root: "lookup fsys [] = Some Dir"
  by (simp add: lookup_def)

lemma map_of_filter_keep:
  "P k \<Longrightarrow> map_of (filter (\<lambda>(k, n). P k) xs) k = map_of xs k"
  by (induction xs) auto

lemma map_of_filter_drop:
  "\<not> P k \<Longrightarrow> map_of (filter (\<lambda>(k, n). P k) xs) k = None"
  by (induction xs) auto

lemma endsWithDot_child:
  assumes "u \<noteq> []" and "CHR ''/'' \<notin> set u" and "u \<noteq> ''.''"
  shows "\<not> endsWithDot (path @ CHR ''/'' # u)"
proof (cases u rule: rev_cases)
  case Nil
  with assms show ?thesis by simp
next
  case (snoc u' x)
  show ?thesis
  proof (cases u' rule: rev_cases)
    case Nil
    with snoc assms show ?thesis
      by (auto simp: endsWithDot_def nth_append)
  next
    case (snoc u'' y)
    with \<open>u = u' @ [x]\<close> assms have "y \<noteq> CHR ''/''" by auto
    moreover have "(path @ CHR ''/'' # u'' @ [y, x]) ! (length (path @ CHR ''/'' # u'' @ [y, x]) - 2) = y"
      by (simp add: nth_append)
    ultimately show ?thesis
      using snoc \<open>u = u' @ [x]\<close> by (auto simp: endsWithDot_def)
  qed
qed

lemma resolve_child:
  assumes "u \<noteq> []" and "CHR ''/'' \<notin> set u" and "u \<noteq> ''.''" and "u \<noteq> ''..''"
  shows "resolve fsys (path @ CHR ''/'' # u) =
           (case resolve fsys path of
              None \<Rightarrow> None
            | Some P \<Rightarrow> if lookup fsys P = Some Dir then Some (P @ [u]) else None)"
  using assms
  by (simp add: resolve_def comps_append comps_plain walk_append split: option.splits)

lemma names_directory_child:
  assumes "u \<noteq> []" and "CHR ''/'' \<notin> set u" and "u \<noteq> ''.''" and "u \<noteq> ''..''"
  shows "\<not> names_directory (path @ CHR ''/'' # u)"
  using assms by (simp add: names_directory_def comps_append comps_plain)

section \<open>Deletion\<close>

text \<open>
  C6. When the registry holds a record for the pod and \<open>scancel\<close> returns an error,
  \<open>deleteContainer\<close> returns that error; the registry is the one it started with, the
  record of the pod included, and no file is touched.
\<close>

theorem deleteContainer_scancel_error:
  assumes entry: "JIDs st podUID = Some j"
    and scancel: "Output ext (length (calls st)) (Scancelpath config) [JID j] = Inl err"
  shows "\<exists>st'. deleteContainer ext podUID path config st = (Error err, st')
           \<and> JIDs st' = JIDs st \<and> JIDs st' podUID = Some j \<and> fs st' = fs st"
  using entry scancel by (simp add: deleteContainer_def exec_Command_Output_def)

theorem deleteContainer_scancel_error_witness:
  "JIDs ex_state ''u1'' = Some ex_jid
   \<and> Output (ex_extern\<lparr>Output := \<lambda>n cmd args. Inl (ExecError ''exit status 1'')\<rparr>)
       (length (calls ex_state)) (Scancelpath ex_config) [JID ex_jid]
       = Inl (ExecError ''exit status 1'')
   \<and> (\<exists>st'. deleteContainer (ex_extern\<lparr>Output := \<lambda>n cmd args. Inl (ExecError ''exit status 1'')\<rparr>)
               ''u1'' ''data/ns-u1'' ex_config ex_state
             = (Error (ExecError ''exit status 1''), st')
           \<and> JIDs st' = JIDs ex_state \<and> JIDs st' ''u1'' = Some ex_jid \<and> fs st' = fs ex_state)"
proof -
  have entry: "JIDs ex_state ''u1'' = Some ex_jid"
    by (simp add: ex_state_def)
  have scancel: "Output (ex_extern\<lparr>Output := \<lambda>n cmd args. Inl (ExecError ''exit status 1'')\<rparr>)
       (length (calls ex_state)) (Scancelpath ex_config) [JID ex_jid]
       = Inl (ExecError ''exit status 1'')"
    by simp
  show ?thesis
    using entry scancel deleteContainer_scancel_error [OF entry scancel, of "''data/ns-u1''"]
    by blast
qed

text \<open>
  C10 as stated fails for an empty pod UID: \<open>path + "/" + podUID\<close> is then
  \<open>data/ns-u1/\<close>, which names the supplied path itself. The delete succeeds, and the
  supplied directory \<open>data/ns-u1\<close> is removed with everything below it.
\<close>

theorem deleteContainer_empty_uid_removes_path:
  "fst (deleteContainer ex_extern '''' ''data/ns-u1'' ex_config (ex_state\<lparr>JIDs := ['''' \<mapsto> ex_jid]\<rparr>))
     = Ok ()
   \<and> lookup (fs (ex_state\<lparr>JIDs := ['''' \<mapsto> ex_jid]\<rparr>)) [''data'', ''ns-u1''] = Some Dir
   \<and> lookup (fs (snd (deleteContainer ex_extern '''' ''data/ns-u1'' ex_config
                        (ex_state\<lparr>JIDs := ['''' \<mapsto> ex_jid]\<rparr>)))) [''data'', ''ns-u1''] = None
   \<and> nodes (fs (snd (deleteContainer ex_extern '''' ''data/ns-u1'' ex_config
                        (ex_state\<lparr>JIDs := ['''' \<mapsto> ex_jid]\<rparr>)))) = [([''data''], Dir)]"
  by code_simp

text \<open>
  The two names that are not names of a child: a pod UID \<open>..\<close> makes \<open>os.RemoveAll\<close>
  empty the parent of the supplied path, the supplied path included, and a pod UID
  \<open>.\<close> makes it refuse, so that nothing is removed.
\<close>

lemma deleteContainer_dot_names:
  "lookup (fs (snd (deleteContainer ex_extern ''..'' ''data/ns-u1'' ex_config
                        (ex_state\<lparr>JIDs := [''..'' \<mapsto> ex_jid]\<rparr>)))) [''data'', ''ns-u1''] = None
  \<and> lookup (fs (snd (deleteContainer ex_extern ''..'' ''data/ns-u1'' ex_config
                        (ex_state\<lparr>JIDs := [''..'' \<mapsto> ex_jid]\<rparr>)))) [''data''] = Some Dir
  \<and> nodes (fs (snd (deleteContainer ex_extern ''.'' ''data/ns-u1'' ex_config
                        (ex_state\<lparr>JIDs := [''.'' \<mapsto> ex_jid]\<rparr>)))) = nodes ex_fs"
  by code_simp

text \<open>
  C10, amended. The pod UID is a plain file name: not empty, without a slash, neither
  \<open>.\<close> nor \<open>..\<close>. A delete of a pod with a registry record whose \<open>scancel\<close> returns
  no error succeeds, and the registry loses the entry of the pod and nothing else. When
  the supplied \<open>path\<close> resolves to a directory \<open>P\<close>, the nodes removed are exactly
  those at or below \<open>P/podUID\<close>: every other node is as before, and \<open>P\<close> itself is
  still a directory. When the supplied \<open>path\<close> names no directory, no node is removed.
\<close>

theorem deleteContainer_removes_child:
  assumes entry: "JIDs st podUID = Some j"
    and scancel: "Output ext (length (calls st)) (Scancelpath config) [JID j] = Inr out"
    and plain: "podUID \<noteq> [] \<and> CHR ''/'' \<notin> set podUID \<and> podUID \<noteq> ''.'' \<and> podUID \<noteq> ''..''"
  shows "\<exists>st'. deleteContainer ext podUID path config st = (Ok (), st')
           \<and> JIDs st' = (JIDs st)(podUID := None)
           \<and> (\<forall>P. resolve (fs st) path = Some P \<and> lookup (fs st) P = Some Dir \<longrightarrow>
                 nodes (fs st') = filter (\<lambda>(k, n). \<not> prefix (P @ [podUID]) k) (nodes (fs st))
               \<and> (\<forall>k. prefix (P @ [podUID]) k \<longrightarrow> lookup (fs st') k = None)
               \<and> (\<forall>k. \<not> prefix (P @ [podUID]) k \<longrightarrow> lookup (fs st') k = lookup (fs st) k)
               \<and> lookup (fs st') P = Some Dir)
           \<and> ((\<forall>P. resolve (fs st) path = Some P \<longrightarrow> lookup (fs st) P \<noteq> Some Dir) \<longrightarrow>
                 nodes (fs st') = nodes (fs st))"
proof -
  define fs' where "fs' = os_RemoveAll (path @ ''/'' @ podUID) (fs st)"
  have run: "deleteContainer ext podUID path config st =
      (Ok (), removeJID podUID (st\<lparr>calls := calls st @ [(Scancelpath config, [JID j])],
                                   fs := fs'\<rparr>))"
    using entry scancel
    by (simp add: deleteContainer_def exec_Command_Output_def Let_def fs'_def)
  have nodir: "\<not> names_directory (path @ CHR ''/'' # podUID)"
    using plain by (simp add: names_directory_child)
  have nodot: "\<not> endsWithDot (path @ CHR ''/'' # podUID)"
    using plain by (simp add: endsWithDot_child)
  have res: "resolve (fs st) (path @ CHR ''/'' # podUID) =
           (case resolve (fs st) path of
              None \<Rightarrow> None
            | Some P \<Rightarrow> if lookup (fs st) P = Some Dir then Some (P @ [podUID]) else None)"
    using plain by (simp add: resolve_child)
  have child: "nodes fs' = filter (\<lambda>(k, n). \<not> prefix (P @ [podUID]) k) (nodes (fs st))
               \<and> (\<forall>k. prefix (P @ [podUID]) k \<longrightarrow> lookup fs' k = None)
               \<and> (\<forall>k. \<not> prefix (P @ [podUID]) k \<longrightarrow> lookup fs' k = lookup (fs st) k)
               \<and> lookup fs' P = Some Dir"
    if P: "resolve (fs st) path = Some P" "lookup (fs st) P = Some Dir" for P
  proof -
    define target where "target = P @ [podUID]"
    have nodes': "nodes fs' = filter (\<lambda>(k, n). \<not> prefix target k) (nodes (fs st))"
      using P nodir nodot by (simp add: fs'_def os_RemoveAll_def res target_def)
    have gone: "lookup fs' k = None" if "prefix target k" for k
    proof -
      from that have "k \<noteq> []" by (auto simp: target_def)
      then show ?thesis
        using that map_of_filter_drop [of "\<lambda>k. \<not> prefix target k" k "nodes (fs st)"]
        by (simp add: lookup_def nodes')
    qed
    have kept: "lookup fs' k = lookup (fs st) k" if "\<not> prefix target k" for k
      using that map_of_filter_keep [of "\<lambda>k. \<not> prefix target k" k "nodes (fs st)"]
      by (simp add: lookup_def nodes')
    have "\<not> prefix target P"
      by (simp add: target_def)
    with kept P have "lookup fs' P = Some Dir" by simp
    with nodes' gone kept show ?thesis
      by (simp add: target_def)
  qed
  have untouched: "(\<forall>P. resolve (fs st) path = Some P \<longrightarrow> lookup (fs st) P \<noteq> Some Dir) \<longrightarrow>
      nodes fs' = nodes (fs st)"
    using nodir nodot
    by (auto simp: fs'_def os_RemoveAll_def res split: option.splits)
  have removed: "\<forall>P. resolve (fs st) path = Some P \<and> lookup (fs st) P = Some Dir \<longrightarrow>
                 nodes fs' = filter (\<lambda>(k, n). \<not> prefix (P @ [podUID]) k) (nodes (fs st))
               \<and> (\<forall>k. prefix (P @ [podUID]) k \<longrightarrow> lookup fs' k = None)
               \<and> (\<forall>k. \<not> prefix (P @ [podUID]) k \<longrightarrow> lookup fs' k = lookup (fs st) k)
               \<and> lookup fs' P = Some Dir"
    using child by blast
  let ?st' = "removeJID podUID (st\<lparr>calls := calls st @ [(Scancelpath config, [JID j])],
                                   fs := fs'\<rparr>)"
  have fs_st': "fs ?st' = fs'"
    by (simp add: removeJID_def)
  have reg: "JIDs ?st' = (JIDs st)(podUID := None)"
    by (simp add: removeJID_def)
  show ?thesis
  proof (intro exI conjI)
    show "deleteContainer ext podUID path config st = (Ok (), ?st')"
      by (rule run)
    show "JIDs ?st' = (JIDs st)(podUID := None)"
      by (rule reg)
    show "\<forall>P. resolve (fs st) path = Some P \<and> lookup (fs st) P = Some Dir \<longrightarrow>
                 nodes (fs ?st') = filter (\<lambda>(k, n). \<not> prefix (P @ [podUID]) k) (nodes (fs st))
               \<and> (\<forall>k. prefix (P @ [podUID]) k \<longrightarrow> lookup (fs ?st') k = None)
               \<and> (\<forall>k. \<not> prefix (P @ [podUID]) k \<longrightarrow> lookup (fs ?st') k = lookup (fs st) k)
               \<and> lookup (fs ?st') P = Some Dir"
      using removed by (simp only: fs_st')
    show "(\<forall>P. resolve (fs st) path = Some P \<longrightarrow> lookup (fs st) P \<noteq> Some Dir) \<longrightarrow>
                 nodes (fs ?st') = nodes (fs st)"
      using untouched by (simp only: fs_st')
  qed
qed

theorem deleteContainer_removes_child_witness:
  "JIDs ex_state ''u1'' = Some ex_jid
   \<and> Output ex_extern (length (calls ex_state)) (Scancelpath ex_config) [JID ex_jid] = Inr []
   \<and> resolve (fs ex_state) ''data/ns-u1'' = Some [''data'', ''ns-u1'']
   \<and> lookup (fs ex_state) [''data'', ''ns-u1''] = Some Dir
   \<and> lookup (fs ex_state) [''data'', ''ns-u1'', ''u1'', ''scratch''] = Some (File ''x'')
   \<and> (\<exists>st'. deleteContainer ex_extern ''u1'' ''data/ns-u1'' ex_config ex_state = (Ok (), st')
          \<and> JIDs st' ''u1'' = None
          \<and> nodes (fs st') =
              [([''data''], Dir),
               ([''data'', ''ns-u1''], Dir),
               ([''data'', ''ns-u1'', ''JobID.jid''], File ''42''),
               ([''data'', ''ns-u1'', ''c.status''], File (''0'' @ NL)),
               ([''data'', ''ns-u1'', ''d.status''], File ''killed'')]
          \<and> lookup (fs st') [''data'', ''ns-u1'', ''u1''] = None
          \<and> lookup (fs st') [''data'', ''ns-u1'', ''u1'', ''scratch''] = None
          \<and> lookup (fs st') [''data'', ''ns-u1''] = Some Dir)"
proof -
  have entry: "JIDs ex_state ''u1'' = Some ex_jid"
    by (simp add: ex_state_def)
  have scancel: "Output ex_extern (length (calls ex_state)) (Scancelpath ex_config) [JID ex_jid] = Inr []"
    by (simp add: ex_extern_def)
  have plain: "''u1'' \<noteq> [] \<and> CHR ''/'' \<notin> set ''u1'' \<and> ''u1'' \<noteq> ''.'' \<and> ''u1'' \<noteq> ''..''"
    by simp
  have res: "resolve (fs ex_state) ''data/ns-u1'' = Some [''data'', ''ns-u1'']"
    by code_simp
  have dir: "lookup (fs ex_state) [''data'', ''ns-u1''] = Some Dir"
    by code_simp
  have inside: "lookup (fs ex_state) [''data'', ''ns-u1'', ''u1'', ''scratch''] = Some (File ''x'')"
    by code_simp
  have left: "filter (\<lambda>(k, n). \<not> prefix ([''data'', ''ns-u1''] @ [''u1'']) k) (nodes (fs ex_state)) =
              [([''data''], Dir),
               ([''data'', ''ns-u1''], Dir),
               ([''data'', ''ns-u1'', ''JobID.jid''], File ''42''),
               ([''data'', ''ns-u1'', ''c.status''], File (''0'' @ NL)),
               ([''data'', ''ns-u1'', ''d.status''], File ''killed'')]"
    by code_simp
  from deleteContainer_removes_child [OF entry scancel plain, of "''data/ns-u1''"]
  obtain st' where run: "deleteContainer ex_extern ''u1'' ''data/ns-u1'' ex_config ex_state = (Ok (), st')"
    and reg: "JIDs st' = (JIDs ex_state)(''u1'' := None)"
    and removed: "\<forall>P. resolve (fs ex_state) ''data/ns-u1'' = Some P \<and> lookup (fs ex_state) P = Some Dir \<longrightarrow>
                 nodes (fs st') = filter (\<lambda>(k, n). \<not> prefix (P @ [''u1'']) k) (nodes (fs ex_state))
               \<and> (\<forall>k. prefix (P @ [''u1'']) k \<longrightarrow> lookup (fs st') k = None)
               \<and> (\<forall>k. \<not> prefix (P @ [''u1'']) k \<longrightarrow> lookup (fs st') k = lookup (fs ex_state) k)
               \<and> lookup (fs st') P = Some Dir"
    by blast
  from removed res dir have
    n: "nodes (fs st') = filter (\<lambda>(k, n). \<not> prefix ([''data'', ''ns-u1''] @ [''u1'']) k) (nodes (fs ex_state))"
    and gone: "\<forall>k. prefix ([''data'', ''ns-u1''] @ [''u1'']) k \<longrightarrow> lookup (fs st') k = None"
    and kept: "lookup (fs st') [''data'', ''ns-u1''] = Some Dir"
    by blast+
  from gone have g1: "lookup (fs st') [''data'', ''ns-u1'', ''u1''] = None"
    and g2: "lookup (fs st') [''data'', ''ns-u1'', ''u1'', ''scratch''] = None"
    by simp_all
  show ?thesis
    using entry scancel res dir inside run reg n [unfolded left] g1 g2 kept by simp
qed

section \<open>The image token\<close>

text \<open>
  C7. The argument vector of a container is the literal head, the environment block,
  the mount block, one image token, the command and the arguments. The image token is
  the value of the annotation \<open>slurm-job.vk.io/image-root\<close> followed by \<open>Image\<close> when
  \<open>Image\<close> begins with \<open>/\<close> and the annotation is present, and \<open>Image\<close> itself in every
  other case.
\<close>

theorem image_token:
  "singularity_command config pod container envs mounts =
     commstr1 config pod @ envs @ mounts @
     [if strings_HasPrefix (C_Image container) ''/''
         \<and> Annotations pod ''slurm-job.vk.io/image-root'' \<noteq> None
      then the (Annotations pod ''slurm-job.vk.io/image-root'') @ C_Image container
      else C_Image container] @
     C_Command container @ C_Args container"
  by (auto simp: singularity_command_def image_reference_def Let_def split: option.splits)

lemma image_token_scenario:
  "image_reference [''slurm-job.vk.io/image-root'' \<mapsto> ''/cvmfs''] ex_container_d
     = ''/cvmfs/img/tool.sif''
   \<and> image_reference Map.empty ex_container_d = ''/img/tool.sif''
   \<and> image_reference [''slurm-job.vk.io/image-root'' \<mapsto> ''/cvmfs''] ex_container = ''ubuntu''"
  by (simp add: image_reference_def ex_container_d_def ex_container_def strings_HasPrefix_def)

section \<open>Submission\<close>

lemma FindStringSubmatch_shape:
  "FindStringSubmatch s = [] \<or>
   (\<exists>digits. FindStringSubmatch s = [jid_literal @ digits, digits] \<and> digits \<noteq> []
       \<and> list_all is_digit digits)"
proof (induction s)
  case Nil
  then show ?case by simp
next
  case (Cons c cs)
  have "list_all is_digit (takeWhile is_digit xs)" for xs :: string
    by (induction xs) simp_all
  then show ?case
    using Cons by (auto simp: Let_def)
qed

lemma Create_then_WriteString:
  assumes "os_Create p fs0 = Inr (f, fs1)" and "WriteString f s fs1 = Inr fs2"
  shows "os_ReadFile p fs2 = Inr s"
proof -
  from assms(1) have res: "resolve fs0 p = Some f" and nodir: "\<not> names_directory p"
    and free: "lookup fs0 f \<noteq> Some Dir" and fs1: "fs1 = store f (File []) fs0"
    by (auto simp: os_Create_def split: if_splits option.splits)
  from free have f: "f \<noteq> []" by (auto simp: lookup_def)
  from nodir have p: "p \<noteq> []" using comps_Nil by (auto simp: names_directory_def)
  have l1: "lookup fs1 f = Some (File [])"
    using f by (simp add: fs1 lookup_store)
  with assms(2) have fs2: "fs2 = store f (File s) fs1"
    by (auto simp: WriteString_def split: if_splits)
  have same: "(lookup fs0 d = Some Dir) = (lookup fs2 d = Some Dir)" for d
    using free by (auto simp: fs2 fs1 lookup_store lookup_root)
  have "resolve fs2 p = Some f"
    unfolding resolve_def using walk_cong [of fs0 fs2 "[]" "comps p"] same res
    by (simp add: resolve_def)
  moreover have "lookup fs2 f = Some (File s)"
    using f by (simp add: fs2 lookup_store)
  ultimately show ?thesis
    using p by (simp add: os_ReadFile_def)
qed

lemma handleJID_matched:
  assumes matched: "FindStringSubmatch output = [whole, digits]"
  shows "(\<forall>msg st'. handleJID podUID output pod path st \<noteq> (Panic msg, st'))
       \<and> (\<forall>st'. handleJID podUID output pod path st = (Ok (), st') \<longrightarrow>
             JIDs st' podUID = Some \<lparr>PodUID = Pod_UID pod, JID = digits, StartTime = 0, EndTime = 0\<rparr>
           \<and> os_ReadFile (path @ ''/JobID.jid'') (fs st') = Inr digits)"
  using matched Create_then_WriteString [of "path @ ''/JobID.jid''" "fs st"]
  by (auto simp: handleJID_def Let_def split: sum.splits prod.splits if_splits)

text \<open>
  C1. Submit with an \<open>sbatch\<close> that prints \<open>sbatch: job queued\<close> on stdout, nothing on
  stderr, and returns no executor error. The claim expects an error result
  (\<open>SubmitError\<close>). \<open>SLURMBatchSubmit\<close> returns the stripped stdout as a success,
  \<open>handleJID\<close> finds no match and panics at \<open>jid[1]\<close>, and so does the handler.
\<close>

theorem submit_unmatched_stdout_panics:
  "fst (SLURMBatchSubmit
          (ex_extern\<lparr>Execute := \<lambda>n cmd args.
             (\<lparr>Stdout = ''sbatch: job queued'' @ NL, Stderr = [], ExecExitCode = 0\<rparr>, None)\<rparr>)
          ''data/ns-u1/job.sh'' ex_config fresh_state)
     = Ok ''sbatch: job queued''
   \<and> fst (handleJID ''u1'' ''sbatch: job queued'' ex_pod ''data/ns-u1'' ex_state)
     = Panic index_out_of_range
   \<and> fst (SubmitHandler
          (ex_extern\<lparr>Execute := \<lambda>n cmd args.
             (\<lparr>Stdout = ''sbatch: job queued'' @ NL, Stderr = [], ExecExitCode = 0\<rparr>, None)\<rparr>)
          no_mounts ex_config ex_config (Inr ''request'') fresh_state)
     = Panicked index_out_of_range"
  by code_simp

lemma submit_matched_stdout:
  "fst (SubmitHandler ex_extern no_mounts ex_config ex_config (Inr ''request'') fresh_state)
     = Returned \<lparr>Header = Some 200, Body = ''Containers created''\<rparr>
   \<and> JIDs (snd (SubmitHandler ex_extern no_mounts ex_config ex_config (Inr ''request'') fresh_state))
       ''u1'' = Some \<lparr>PodUID = ''u1'', JID = ''12345'', StartTime = 0, EndTime = 0\<rparr>
   \<and> os_ReadFile ''data/ns-u1/JobID.jid''
       (fs (snd (SubmitHandler ex_extern no_mounts ex_config ex_config (Inr ''request'') fresh_state)))
     = Inr ''12345''"
  by code_simp

section \<open>The MPI wrapper\<close>

lemma foldl_const: "foldl (\<lambda>acc x. acc) a xs = a"
  by (induction xs) simp_all

lemma mpi_range_loop_unchanged: "mpi_range_loop mpi commands = commands"
  by (simp add: mpi_range_loop_def Let_def foldl_const)

lemma produceSLURMScript_ignores_mpi_flags:
  "produceSLURMScript path podNamespace podUID
       (annotations(''slurm-job.vk.io/mpi-flags'' := v)) commands config st =
   produceSLURMScript path podNamespace podUID annotations commands config st"
proof -
  let ?ann = "annotations(''slurm-job.vk.io/mpi-flags'' := v)"
  have flags: "?ann ''slurm-job.vk.io/flags'' = annotations ''slurm-job.vk.io/flags''"
    by simp
  have pre_exec: "?ann ''job.vk.io/pre-exec'' = annotations ''job.vk.io/pre-exec''"
    by simp
  have loop: "(case a ''slurm-job.vk.io/mpi-flags'' of
             Some mpi_flags \<Rightarrow>
               (if mpi_flags \<noteq> ''true''
                then mpi_range_loop
                       ([''mpiexec'', ''-np'', ''$SLURM_NTASKS''] @ strings_Split mpi_flags CHR '' '')
                       commands
                else commands)
           | None \<Rightarrow> commands) = commands" for a :: "string \<rightharpoonup> string"
    by (simp add: mpi_range_loop_unchanged split: option.splits)
  show ?thesis
    unfolding produceSLURMScript_def flags pre_exec loop ..
qed

text \<open>
  C2. A pod with the annotation \<open>slurm-job.vk.io/mpi-flags\<close> set to \<open>--map-by node\<close>
  and one container. The claim expects the container's line in \<open>job.sh\<close> to begin
  with \<open>mpiexec -np $SLURM_NTASKS --map-by node\<close>. The line written begins with
  \<open>singularity\<close>: the script is the one written without the annotation.
\<close>

theorem mpi_flags_not_applied:
  "fst (produceSLURMScript ''data/ns-u1'' ''ns'' ''u1''
          [''slurm-job.vk.io/mpi-flags'' \<mapsto> ''--map-by node'']
          [\<lparr>containerName = ''c'', command = [''singularity'', ''exec'', ''ubuntu'']\<rparr>]
          ex_config fresh_state)
     = Ok ''data/ns-u1/job.sh''
   \<and> os_ReadFile ''data/ns-u1/job.sh''
       (fs (snd (produceSLURMScript ''data/ns-u1'' ''ns'' ''u1''
          [''slurm-job.vk.io/mpi-flags'' \<mapsto> ''--map-by node'']
          [\<lparr>containerName = ''c'', command = [''singularity'', ''exec'', ''ubuntu'']\<rparr>]
          ex_config fresh_state)))
     = Inr (''#!/bin/bash'' @ NL @
            ''#SBATCH --job-name=u1'' @ NL @
            ''#SBATCH --output=data/ns-u1/job.out'' @ NL @ NL @ NL @
            ''singularity exec ubuntu &> data/ns-u1/c.out; echo $? > data/ns-u1/c.status &'' @ NL)"
  by code_simp

section \<open>The rounds of the Status handler\<close>

lemma status_containers_code:
  "status_containers path fsys cts acc p = Next (cs, p') \<Longrightarrow> P_statusCode p' = StatusOK \<Longrightarrow>
   P_w p' = P_w p \<and> P_statusCode p = StatusOK"
proof (induction cts arbitrary: acc p)
  case Nil
  then show ?case by simp
next
  case (Cons ct cts)
  then show ?case
    by (fastforce simp: StatusOK_def StatusInternalServerError_def split: sum.splits)
qed

lemma ended_case_code:
  "ended_case ext path pod j p st = (Next p', st') \<Longrightarrow>
   P_w p' = P_w p \<and> P_statusCode p' = P_statusCode p"
  by (auto simp: ended_case_def Let_def
      split: prod.splits step.splits list.splits option.splits if_splits)

lemma running_case_code:
  "running_case ext path pod j p st = (Next p', st') \<Longrightarrow>
   P_w p' = P_w p \<and> P_statusCode p' = P_statusCode p"
  by (auto simp: running_case_def Let_def
      split: prod.splits step.splits list.splits option.splits if_splits)

lemma waiting_case_code:
  "waiting_case pod p st = (Next p', st') \<Longrightarrow>
   P_w p' = P_w p \<and> P_statusCode p' = P_statusCode p"
  by (auto simp: waiting_case_def split: list.splits)

lemma status_pod_code:
  assumes "status_pod ext config podp p st = (Next p', st')" and "P_statusCode p' = StatusOK"
  shows "P_w p' = P_w p \<and> P_statusCode p = StatusOK"
proof -
  from assms(1) obtain pod j where podp: "podp = Some pod" and entry: "JIDs st (Pod_UID pod) = Some j"
    by (auto simp: status_pod_def Let_def split: option.splits)
  define args where "args = [''--noheader'', ''-a'', ''-j '' @ JID j]"
  define path where "path = DataRootFolder config @ Pod_Namespace pod @ ''-'' @ Pod_UID pod"
  obtain er ign where ex: "Execute ext (length (calls st)) (Squeuepath config) args = (er, ign)"
    by (cases "Execute ext (length (calls st)) (Squeuepath config) args")
  define st2 where "st2 = st\<lparr>calls := calls st @ [(Squeuepath config, args)], ticks := Suc (ticks st)\<rparr>"
  define p1 where "p1 = p\<lparr>P_timeNow := Now ext (ticks st)\<rparr>"
  have p1: "P_w p1 = P_w p" "P_statusCode p1 = P_statusCode p"
    by (simp_all add: p1_def)
  show ?thesis
  proof (cases "Stderr er = []")
    case False
    then have "status_pod ext config podp p st =
      (case status_containers path (fs st) (Containers pod) [] p1 of
         Stop h \<Rightarrow> (Stop h, st2)
       | Next (containerStatuses, p2) \<Rightarrow>
           (Next (p2\<lparr>P_resp := P_resp p2 @ [pod_status pod containerStatuses]\<rparr>), st2))"
      using podp entry ex
      by (simp add: status_pod_def shell_Execute_def time_Now_def Let_def path_def args_def
          st2_def p1_def split: step.splits prod.splits)
    with assms obtain cs p2 where
      "status_containers path (fs st) (Containers pod) [] p1 = Next (cs, p2)"
      and "p' = p2\<lparr>P_resp := P_resp p2 @ [pod_status pod cs]\<rparr>"
      by (auto split: step.splits prod.splits)
    with status_containers_code [of path "fs st" "Containers pod" "[]" p1 cs p2] assms(2) p1
    show ?thesis by simp
  next
    case True
    then have "status_pod ext config podp p st = ended_case ext path pod j p1 st2
        \<or> status_pod ext config podp p st = running_case ext path pod j p1 st2
        \<or> status_pod ext config podp p st = waiting_case pod p1 st2"
      using podp entry ex
      by (simp add: status_pod_def shell_Execute_def time_Now_def Let_def path_def args_def
          st2_def p1_def)
    with assms(1) ended_case_code [of ext path pod j p1 st2 p' st']
      running_case_code [of ext path pod j p1 st2 p' st']
      waiting_case_code [of pod p1 st2 p' st'] p1 assms(2)
    show ?thesis by auto
  qed
qed

lemma status_pods_code:
  "status_pods ext config pods p st = (Next p', st') \<Longrightarrow> P_statusCode p' = StatusOK \<Longrightarrow>
   P_w p' = P_w p \<and> P_statusCode p = StatusOK"
proof (induction pods arbitrary: p st)
  case Nil
  then show ?case by simp
next
  case (Cons podp pods)
  from Cons.prems(1) obtain p1 st1 where
    first: "status_pod ext config podp p st = (Next p1, st1)"
    and rest: "status_pods ext config pods p1 st1 = (Next p', st')"
    by (auto split: prod.splits step.splits)
  from Cons.IH [OF rest Cons.prems(2)] have "P_w p' = P_w p1" "P_statusCode p1 = StatusOK"
    by simp_all
  with status_pod_code [OF first] show ?case by simp
qed


lemma write_response_encoded:
  "Marshal ext resp = Inr encoded \<Longrightarrow>
   write_response ext StatusOK resp new_response = \<lparr>Header = Some 200, Body = encoded\<rparr>"
  by (simp add: write_response_def WriteHeader_def Write_def new_response_def StatusOK_def)

lemma ReadFile_Open_ReadAll:
  "os_ReadFile p fsys = Inr s \<Longrightarrow>
     \<exists>f. os_Open p fsys = Inr f \<and> io_ReadAll f fsys = Inr s"
  by (auto simp: os_ReadFile_def os_Open_def io_ReadAll_def
      split: option.splits node.splits if_splits)

lemma ReadFile_fails:
  "os_ReadFile p fsys = Inl e \<Longrightarrow>
     (\<exists>e'. os_Open p fsys = Inl e') \<or>
     (\<exists>f e'. os_Open p fsys = Inr f \<and> io_ReadAll f fsys = Inl e')"
  by (auto simp: os_ReadFile_def os_Open_def io_ReadAll_def
      split: option.splits node.splits if_splits)

lemma status_pods_append:
  "status_pods ext config (xs @ ys) p st =
     (case status_pods ext config xs p st of
        (Stop h, st1) \<Rightarrow> (Stop h, st1)
      | (Next p1, st1) \<Rightarrow> status_pods ext config ys p1 st1)"
  by (induction xs arbitrary: p st) (auto split: prod.splits step.splits)

lemma status_containers_readable:
  assumes "\<forall>ct \<in> set cts. os_ReadFile (path @ ''/'' @ C_Name ct @ ''.status'') fsys = Inr (content ct)"
  shows "\<exists>p'. status_containers path fsys cts acc p =
           Next (acc @ map (\<lambda>ct. \<lparr>CS_Name = C_Name ct,
                                  CS_State = Terminated
                                    (case Atoi (strip_newlines (content ct)) of
                                       Inl err \<Rightarrow> 500 | Inr status \<Rightarrow> of_int status) 0 0,
                                  CS_Ready = False\<rparr>) cts, p')
         \<and> P_resp p' = P_resp p \<and> P_timeNow p' = P_timeNow p"
  using assms
proof (induction cts arbitrary: acc p)
  case Nil
  then show ?case by simp
next
  case (Cons ct cts)
  from Cons.prems have here: "os_ReadFile (path @ ''/'' @ C_Name ct @ ''.status'') fsys = Inr (content ct)"
    and rest: "\<forall>ct \<in> set cts. os_ReadFile (path @ ''/'' @ C_Name ct @ ''.status'') fsys = Inr (content ct)"
    by simp_all
  note files = ReadFile_Open_ReadAll [OF here]
  show ?case
  proof (cases "Atoi (strip_newlines (content ct))")
    case (Inl err)
    then show ?thesis
      using files Cons.IH [OF rest, of
          "acc @ [\<lparr>CS_Name = C_Name ct, CS_State = Terminated (of_int 500) 0 0, CS_Ready = False\<rparr>]"
          "p\<lparr>P_statusCode := StatusInternalServerError,
             P_w := reply StatusInternalServerError converting_status_msg (P_w p)\<rparr>"]
      by auto
  next
    case (Inr status)
    then show ?thesis
      using files Cons.IH [OF rest, of
          "acc @ [\<lparr>CS_Name = C_Name ct, CS_State = Terminated (of_int status) 0 0, CS_Ready = False\<rparr>]" p]
      by auto
  qed
qed

lemma status_containers_unreadable:
  assumes "ct \<in> set cts" and "os_ReadFile (path @ ''/'' @ C_Name ct @ ''.status'') fsys = Inl e"
  shows "\<exists>w. status_containers path fsys cts acc p = Stop (Returned w)"
  using assms
proof (induction cts arbitrary: acc p)
  case Nil
  then show ?case by simp
next
  case (Cons c cts)
  show ?case
  proof (cases "os_ReadFile (path @ ''/'' @ C_Name c @ ''.status'') fsys")
    case (Inl e')
    from ReadFile_fails [OF this] show ?thesis by auto
  next
    case (Inr s)
    then have "c \<noteq> ct" using Cons.prems by auto
    then have "ct \<in> set cts" using Cons.prems by simp
    from Cons.IH [OF this Cons.prems(2)] ReadFile_Open_ReadAll [OF Inr]
    show ?thesis by (auto split: sum.splits)
  qed
qed

lemma reply_500:
  "Header w = None \<or> Header w = Some 500 \<Longrightarrow>
   Header (reply StatusInternalServerError msg w) = Some 500
   \<and> Body (reply StatusInternalServerError msg w) = Body w @ msg"
  by (auto simp: reply_def Write_def WriteHeader_def StatusInternalServerError_def)

lemma consistent_header:
  "response_consistent p \<Longrightarrow> Header (P_w p) = None \<or> Header (P_w p) = Some 500"
  by (auto simp: response_consistent_def new_response_def split: if_splits)

lemma consistent_after_reply:
  "response_consistent p \<Longrightarrow>
   response_consistent (p\<lparr>P_statusCode := StatusInternalServerError,
                          P_w := reply StatusInternalServerError msg (P_w p)\<rparr>)"
  using reply_500 [OF consistent_header, of p msg]
  by (simp add: response_consistent_def StatusOK_def StatusInternalServerError_def)

lemma status_containers_frame:
  "status_containers path fsys cts acc p = Next (cs, p') \<Longrightarrow>
   P_resp p' = P_resp p \<and> P_timeNow p' = P_timeNow p
   \<and> (response_consistent p \<longrightarrow> response_consistent p')
   \<and> (P_statusCode p = StatusInternalServerError \<longrightarrow> P_statusCode p' = StatusInternalServerError)"
proof (induction cts arbitrary: acc p)
  case Nil
  then show ?case by simp
next
  case (Cons ct cts)
  show ?case
  proof (cases "os_Open (path @ ''/'' @ C_Name ct @ ''.status'') fsys")
    case (Inl e)
    with Cons.prems show ?thesis by simp
  next
    case (Inr f)
    show ?thesis
    proof (cases "io_ReadAll f fsys")
      case (Inl e)
      with Cons.prems Inr show ?thesis by simp
    next
      case read: (Inr statusb)
      show ?thesis
      proof (cases "Atoi (strip_newlines statusb)")
        case (Inl e)
        with Cons.prems Inr read have
          "status_containers path fsys cts
            (acc @ [\<lparr>CS_Name = C_Name ct, CS_State = Terminated (of_int 500) 0 0, CS_Ready = False\<rparr>])
            (p\<lparr>P_statusCode := StatusInternalServerError,
               P_w := reply StatusInternalServerError converting_status_msg (P_w p)\<rparr>) = Next (cs, p')"
          by simp
        from Cons.IH [OF this] consistent_after_reply [of p converting_status_msg]
        show ?thesis by simp
      next
        case (Inr status)
        with Cons.prems \<open>os_Open (path @ ''/'' @ C_Name ct @ ''.status'') fsys = Inr f\<close> read have
          "status_containers path fsys cts
            (acc @ [\<lparr>CS_Name = C_Name ct, CS_State = Terminated (of_int status) 0 0, CS_Ready = False\<rparr>])
            p = Next (cs, p')"
          by simp
        from Cons.IH [OF this] show ?thesis by simp
      qed
    qed
  qed
qed

lemma status_containers_stop:
  "status_containers path fsys cts acc p = Stop h \<Longrightarrow> response_consistent p \<Longrightarrow>
   \<exists>w. h = Returned w \<and> Header w = Some 500
     \<and> (suffix retrieving_status_msg (Body w) \<or> suffix reading_status_msg (Body w))"
proof (induction cts arbitrary: acc p)
  case Nil
  then show ?case by simp
next
  case (Cons ct cts)
  note hdr = consistent_header [OF Cons.prems(2)]
  show ?case
  proof (cases "os_Open (path @ ''/'' @ C_Name ct @ ''.status'') fsys")
    case (Inl e)
    with Cons.prems reply_500 [OF hdr, of retrieving_status_msg] show ?thesis
      by (auto simp: suffix_def)
  next
    case (Inr f)
    show ?thesis
    proof (cases "io_ReadAll f fsys")
      case (Inl e)
      with Cons.prems Inr reply_500 [OF hdr, of reading_status_msg] show ?thesis
        by (auto simp: suffix_def)
    next
      case read: (Inr statusb)
      show ?thesis
      proof (cases "Atoi (strip_newlines statusb)")
        case (Inl e)
        with Cons.prems Inr read have
          "status_containers path fsys cts
            (acc @ [\<lparr>CS_Name = C_Name ct, CS_State = Terminated (of_int 500) 0 0, CS_Ready = False\<rparr>])
            (p\<lparr>P_statusCode := StatusInternalServerError,
               P_w := reply StatusInternalServerError converting_status_msg (P_w p)\<rparr>) = Stop h"
          by simp
        from Cons.IH [OF this consistent_after_reply [OF Cons.prems(2)]]
        show ?thesis .
      next
        case (Inr status)
        with Cons.prems \<open>os_Open (path @ ''/'' @ C_Name ct @ ''.status'') fsys = Inr f\<close> read have
          "status_containers path fsys cts
            (acc @ [\<lparr>CS_Name = C_Name ct, CS_State = Terminated (of_int status) 0 0, CS_Ready = False\<rparr>])
            p = Stop h"
          by simp
        from Cons.IH [OF this Cons.prems(2)] show ?thesis .
      qed
    qed
  qed
qed

lemma status_containers_not_integer:
  assumes "\<forall>ct \<in> set cts. os_ReadFile (path @ ''/'' @ C_Name ct @ ''.status'') fsys = Inr (content ct)"
    and "\<exists>ct \<in> set cts. \<exists>e. Atoi (strip_newlines (content ct)) = Inl e"
    and "status_containers path fsys cts acc p = Next (cs, p')"
  shows "P_statusCode p' = StatusInternalServerError"
  using assms
proof (induction cts arbitrary: acc p)
  case Nil
  then show ?case by simp
next
  case (Cons ct cts)
  from Cons.prems(1) have here: "os_ReadFile (path @ ''/'' @ C_Name ct @ ''.status'') fsys = Inr (content ct)"
    and rest: "\<forall>ct \<in> set cts. os_ReadFile (path @ ''/'' @ C_Name ct @ ''.status'') fsys = Inr (content ct)"
    by simp_all
  from ReadFile_Open_ReadAll [OF here] obtain f
    where f: "os_Open (path @ ''/'' @ C_Name ct @ ''.status'') fsys = Inr f"
      "io_ReadAll f fsys = Inr (content ct)"
    by blast
  show ?case
  proof (cases "Atoi (strip_newlines (content ct))")
    case (Inl e)
    with Cons.prems(3) f have
      "status_containers path fsys cts
        (acc @ [\<lparr>CS_Name = C_Name ct, CS_State = Terminated (of_int 500) 0 0, CS_Ready = False\<rparr>])
        (p\<lparr>P_statusCode := StatusInternalServerError,
           P_w := reply StatusInternalServerError converting_status_msg (P_w p)\<rparr>) = Next (cs, p')"
      by simp
    from status_containers_frame [OF this] show ?thesis by simp
  next
    case (Inr status)
    with Cons.prems(3) f have run:
      "status_containers path fsys cts
        (acc @ [\<lparr>CS_Name = C_Name ct, CS_State = Terminated (of_int status) 0 0, CS_Ready = False\<rparr>])
        p = Next (cs, p')"
      by simp
    from Inr Cons.prems(2) have "\<exists>ct \<in> set cts. \<exists>e. Atoi (strip_newlines (content ct)) = Inl e"
      by auto
    from Cons.IH [OF rest this run] show ?thesis .
  qed
qed

lemma write_timestamp_cache:
  "cachedStatus (snd (write_timestamp ext file msg p st)) = cachedStatus st
   \<and> timer (snd (write_timestamp ext file msg p st)) = timer st"
  by (simp add: write_timestamp_def split: sum.splits prod.splits)

lemma ended_case_cache:
  "cachedStatus (snd (ended_case ext path pod j p st)) = cachedStatus st
   \<and> timer (snd (ended_case ext path pod j p st)) = timer st"
  by (auto simp: ended_case_def Let_def write_timestamp_def
      split: sum.splits prod.splits step.splits list.splits option.splits)

lemma running_case_cache:
  "cachedStatus (snd (running_case ext path pod j p st)) = cachedStatus st
   \<and> timer (snd (running_case ext path pod j p st)) = timer st"
  by (auto simp: running_case_def Let_def write_timestamp_def
      split: sum.splits prod.splits step.splits list.splits option.splits)

lemma waiting_case_cache:
  "cachedStatus (snd (waiting_case pod p st)) = cachedStatus st
   \<and> timer (snd (waiting_case pod p st)) = timer st"
  by (auto simp: waiting_case_def split: list.splits)

lemma ended_case_resp:
  "ended_case ext path pod j p st = (Next p', st') \<Longrightarrow> prefix (P_resp p) (P_resp p')"
  by (auto simp: ended_case_def Let_def
      split: prod.splits step.splits list.splits option.splits if_splits)

lemma running_case_resp:
  "running_case ext path pod j p st = (Next p', st') \<Longrightarrow> prefix (P_resp p) (P_resp p')"
  by (auto simp: running_case_def Let_def
      split: prod.splits step.splits list.splits option.splits if_splits)

lemma waiting_case_resp:
  "waiting_case pod p st = (Next p', st') \<Longrightarrow> prefix (P_resp p) (P_resp p')"
  by (auto simp: waiting_case_def split: list.splits)

text \<open>The round of a pod with a registry record: Branch B, or one of the three cases.\<close>

lemma status_pod_alternatives:
  assumes entry: "JIDs st (Pod_UID pod) = Some j"
    and path_def: "path = DataRootFolder config @ Pod_Namespace pod @ ''-'' @ Pod_UID pod"
    and args_def: "args = [''--noheader'', ''-a'', ''-j '' @ JID j]"
    and st2_def: "st2 = st\<lparr>calls := calls st @ [(Squeuepath config, args)], ticks := Suc (ticks st)\<rparr>"
    and p1_def: "p1 = p\<lparr>P_timeNow := Now ext (ticks st)\<rparr>"
  shows "(Stderr (fst (Execute ext (length (calls st)) (Squeuepath config) args)) \<noteq> [] \<and>
          status_pod ext config (Some pod) p st =
            (case status_containers path (fs st) (Containers pod) [] p1 of
               Stop h \<Rightarrow> (Stop h, st2)
             | Next (containerStatuses, p2) \<Rightarrow>
                 (Next (p2\<lparr>P_resp := P_resp p2 @ [pod_status pod containerStatuses]\<rparr>), st2)))
       \<or> (Stderr (fst (Execute ext (length (calls st)) (Squeuepath config) args)) = [] \<and>
           (status_pod ext config (Some pod) p st = ended_case ext path pod j p1 st2
            \<or> status_pod ext config (Some pod) p st = running_case ext path pod j p1 st2
            \<or> status_pod ext config (Some pod) p st = waiting_case pod p1 st2))"
proof -
  obtain er ign where ex: "Execute ext (length (calls st)) (Squeuepath config) args = (er, ign)"
    by (cases "Execute ext (length (calls st)) (Squeuepath config) args")
  show ?thesis
  proof (cases "Stderr er = []")
    case False
    then show ?thesis
      using entry ex
      by (simp add: status_pod_def shell_Execute_def time_Now_def Let_def path_def args_def
          st2_def p1_def split: step.splits prod.splits)
  next
    case True
    then show ?thesis
      using entry ex
      by (simp add: status_pod_def shell_Execute_def time_Now_def Let_def path_def args_def
          st2_def p1_def)
  qed
qed

lemma status_pod_cache:
  "cachedStatus (snd (status_pod ext config podp p st)) = cachedStatus st
   \<and> timer (snd (status_pod ext config podp p st)) = timer st"
proof (cases podp)
  case None
  then show ?thesis by (simp add: status_pod_def)
next
  case (Some pod)
  show ?thesis
  proof (cases "JIDs st (Pod_UID pod)")
    case None
    then show ?thesis using Some by (simp add: status_pod_def)
  next
    case (Some j)
    define path where "path = DataRootFolder config @ Pod_Namespace pod @ ''-'' @ Pod_UID pod"
    define args where "args = [''--noheader'', ''-a'', ''-j '' @ JID j]"
    define st2 where "st2 = st\<lparr>calls := calls st @ [(Squeuepath config, args)], ticks := Suc (ticks st)\<rparr>"
    define p1 where "p1 = p\<lparr>P_timeNow := Now ext (ticks st)\<rparr>"
    have st2: "cachedStatus st2 = cachedStatus st" "timer st2 = timer st"
      by (simp_all add: st2_def)
    from status_pod_alternatives [OF Some path_def args_def st2_def p1_def]
    consider
      (B) "status_pod ext config (Some pod) p st =
              (case status_containers path (fs st) (Containers pod) [] p1 of
                 Stop h \<Rightarrow> (Stop h, st2)
               | Next (containerStatuses, p2) \<Rightarrow>
                   (Next (p2\<lparr>P_resp := P_resp p2 @ [pod_status pod containerStatuses]\<rparr>), st2))"
      | (ended) "status_pod ext config (Some pod) p st = ended_case ext path pod j p1 st2"
      | (running) "status_pod ext config (Some pod) p st = running_case ext path pod j p1 st2"
      | (waiting) "status_pod ext config (Some pod) p st = waiting_case pod p1 st2"
      by blast
    then show ?thesis
    proof cases
      case B
      then have "snd (status_pod ext config (Some pod) p st) = st2"
        by (simp split: step.splits prod.splits)
      then show ?thesis
        using st2 by (simp add: \<open>podp = Some pod\<close>)
    next
      case ended
      then show ?thesis
        using ended_case_cache [of ext path pod j p1 st2] st2
        by (simp add: \<open>podp = Some pod\<close>)
    next
      case running
      then show ?thesis
        using running_case_cache [of ext path pod j p1 st2] st2
        by (simp add: \<open>podp = Some pod\<close>)
    next
      case waiting
      then show ?thesis
        using waiting_case_cache [of pod p1 st2] st2
        by (simp add: \<open>podp = Some pod\<close>)
    qed
  qed
qed

lemma status_pod_frame:
  assumes "status_pod ext config podp p st = (Next p', st')"
  shows "prefix (P_resp p) (P_resp p')
       \<and> (response_consistent p \<longrightarrow> response_consistent p')"
proof -
  from assms obtain pod j where podp: "podp = Some pod" and entry: "JIDs st (Pod_UID pod) = Some j"
    by (auto simp: status_pod_def Let_def split: option.splits)
  define path where "path = DataRootFolder config @ Pod_Namespace pod @ ''-'' @ Pod_UID pod"
  define args where "args = [''--noheader'', ''-a'', ''-j '' @ JID j]"
  define st2 where "st2 = st\<lparr>calls := calls st @ [(Squeuepath config, args)], ticks := Suc (ticks st)\<rparr>"
  define p1 where "p1 = p\<lparr>P_timeNow := Now ext (ticks st)\<rparr>"
  have p1: "P_w p1 = P_w p" "P_statusCode p1 = P_statusCode p" "P_resp p1 = P_resp p"
    by (simp_all add: p1_def)
  have c1: "response_consistent p1 = response_consistent p"
    by (simp add: response_consistent_def p1)
  from status_pod_alternatives [OF entry path_def args_def st2_def p1_def]
  consider
    (B) "status_pod ext config (Some pod) p st =
            (case status_containers path (fs st) (Containers pod) [] p1 of
               Stop h \<Rightarrow> (Stop h, st2)
             | Next (containerStatuses, p2) \<Rightarrow>
                 (Next (p2\<lparr>P_resp := P_resp p2 @ [pod_status pod containerStatuses]\<rparr>), st2))"
    | (ended) "status_pod ext config (Some pod) p st = ended_case ext path pod j p1 st2"
    | (running) "status_pod ext config (Some pod) p st = running_case ext path pod j p1 st2"
    | (waiting) "status_pod ext config (Some pod) p st = waiting_case pod p1 st2"
    by blast
  then show ?thesis
  proof cases
    case B
    with assms podp obtain cs p2 where
      run: "status_containers path (fs st) (Containers pod) [] p1 = Next (cs, p2)"
      and p': "p' = p2\<lparr>P_resp := P_resp p2 @ [pod_status pod cs]\<rparr>"
      by (auto split: step.splits prod.splits)
    from status_containers_frame [OF run] have "P_resp p2 = P_resp p1"
      and "response_consistent p1 \<longrightarrow> response_consistent p2"
      by simp_all
    then show ?thesis
      using p1 c1 by (auto simp: p' response_consistent_def)
  next
    case ended
    with assms podp have run: "ended_case ext path pod j p1 st2 = (Next p', st')" by simp
    from ended_case_code [OF run] ended_case_resp [OF run] p1 c1
    show ?thesis by (auto simp: response_consistent_def)
  next
    case running
    with assms podp have run: "running_case ext path pod j p1 st2 = (Next p', st')" by simp
    from running_case_code [OF run] running_case_resp [OF run] p1 c1
    show ?thesis by (auto simp: response_consistent_def)
  next
    case waiting
    with assms podp have run: "waiting_case pod p1 st2 = (Next p', st')" by simp
    from waiting_case_code [OF run] waiting_case_resp [OF run] p1 c1
    show ?thesis by (auto simp: response_consistent_def)
  qed
qed

lemma status_pods_cache:
  "cachedStatus (snd (status_pods ext config pods p st)) = cachedStatus st
   \<and> timer (snd (status_pods ext config pods p st)) = timer st"
proof (induction pods arbitrary: p st)
  case Nil
  then show ?case by simp
next
  case (Cons podp pods)
  show ?case
    using status_pod_cache [of ext config podp p st] Cons.IH
    by (auto split: prod.splits step.splits)
qed

lemma status_pods_frame:
  "status_pods ext config pods p st = (Next p', st') \<Longrightarrow>
   prefix (P_resp p) (P_resp p') \<and> (response_consistent p \<longrightarrow> response_consistent p')"
proof (induction pods arbitrary: p st)
  case Nil
  then show ?case by simp
next
  case (Cons podp pods)
  from Cons.prems obtain p1 st1 where
    first: "status_pod ext config podp p st = (Next p1, st1)"
    and rest: "status_pods ext config pods p1 st1 = (Next p', st')"
    by (auto split: prod.splits step.splits)
  from status_pod_frame [OF first] Cons.IH [OF rest] show ?case
    by (auto intro: prefix_order.trans)
qed

text \<open>The handler in a full poll cycle, as a function of what the loop over the pods gives.\<close>

lemma StatusHandler_cycle:
  assumes read: "body = Inr bodyBytes"
    and elapsed: "Second * 10 \<le> time_Sub (Now ext (ticks st)) (timer st)"
    and request: "Unmarshal_pods ext bodyBytes = Inr req"
    and squeue: "Stderr (fst (Execute ext (length (calls st)) ''squeue'' [''--me''])) = []"
  shows "StatusHandler ext config body st =
           (case status_pods ext config req
                   \<lparr>P_resp = [], P_w = new_response, P_statusCode = StatusOK,
                    P_timeNow = Now ext (ticks st)\<rparr>
                   (st\<lparr>ticks := Suc (ticks st), calls := calls st @ [(''squeue'', [''--me''])]\<rparr>) of
              (Stop h, st2) \<Rightarrow> (h, st2)
            | (Next p, st2) \<Rightarrow>
                (Returned (write_response ext (P_statusCode p) (P_resp p) (P_w p)),
                 st2\<lparr>cachedStatus := P_resp p, ticks := Suc (ticks st2),
                     timer := Now ext (ticks st2)\<rparr>))"
proof -
  obtain er ign where ex: "Execute ext (length (calls st)) ''squeue'' [''--me''] = (er, ign)"
    by (cases "Execute ext (length (calls st)) ''squeue'' [''--me'']")
  have quiet: "Stderr er = []" using squeue ex by simp
  show ?thesis
    using read elapsed request quiet
    by (simp add: StatusHandler_def time_Now_def shell_Execute_def Let_def ex
        split: prod.splits step.splits)
qed

lemma write_response_error:
  "P_statusCode p \<noteq> StatusOK \<Longrightarrow> response_consistent p \<Longrightarrow>
   Header (write_response ext (P_statusCode p) (P_resp p) (P_w p)) = Some 500
   \<and> Body (write_response ext (P_statusCode p) (P_resp p) (P_w p)) = Body (P_w p) @ deleting_msg"
  by (auto simp: write_response_def response_consistent_def WriteHeader_def Write_def Let_def
      split: if_splits)

lemma reply_Body: "Body (reply code msg w) = Body w @ msg"
  by (simp add: reply_def Write_def WriteHeader_def)

text \<open>The texts written to the response stay in it.\<close>

lemma status_containers_body:
  "status_containers path fsys cts acc p = Next (cs, p') \<Longrightarrow>
   prefix (Body (P_w p)) (Body (P_w p'))"
proof (induction cts arbitrary: acc p)
  case Nil
  then show ?case by simp
next
  case (Cons ct cts)
  show ?case
  proof (cases "os_Open (path @ ''/'' @ C_Name ct @ ''.status'') fsys")
    case (Inl e)
    with Cons.prems show ?thesis by simp
  next
    case (Inr f)
    show ?thesis
    proof (cases "io_ReadAll f fsys")
      case (Inl e)
      with Cons.prems Inr show ?thesis by simp
    next
      case read: (Inr statusb)
      show ?thesis
      proof (cases "Atoi (strip_newlines statusb)")
        case (Inl e)
        with Cons.prems Inr read have
          "status_containers path fsys cts
            (acc @ [\<lparr>CS_Name = C_Name ct, CS_State = Terminated (of_int 500) 0 0, CS_Ready = False\<rparr>])
            (p\<lparr>P_statusCode := StatusInternalServerError,
               P_w := reply StatusInternalServerError converting_status_msg (P_w p)\<rparr>) = Next (cs, p')"
          by simp
        from Cons.IH [OF this] show ?thesis
          by (simp add: reply_Body append_prefixD)
      next
        case (Inr status)
        with Cons.prems \<open>os_Open (path @ ''/'' @ C_Name ct @ ''.status'') fsys = Inr f\<close> read have
          "status_containers path fsys cts
            (acc @ [\<lparr>CS_Name = C_Name ct, CS_State = Terminated (of_int status) 0 0, CS_Ready = False\<rparr>])
            p = Next (cs, p')"
          by simp
        from Cons.IH [OF this] show ?thesis by simp
      qed
    qed
  qed
qed

lemma status_containers_texts:
  assumes "\<forall>ct \<in> set cts. os_ReadFile (path @ ''/'' @ C_Name ct @ ''.status'') fsys = Inr (content ct)"
    and "\<exists>ct \<in> set cts. \<exists>e. Atoi (strip_newlines (content ct)) = Inl e"
    and "status_containers path fsys cts acc p = Next (cs, p')"
  shows "sublist converting_status_msg (Body (P_w p'))"
  using assms
proof (induction cts arbitrary: acc p)
  case Nil
  then show ?case by simp
next
  case (Cons ct cts)
  from Cons.prems(1) have here: "os_ReadFile (path @ ''/'' @ C_Name ct @ ''.status'') fsys = Inr (content ct)"
    and rest: "\<forall>ct \<in> set cts. os_ReadFile (path @ ''/'' @ C_Name ct @ ''.status'') fsys = Inr (content ct)"
    by simp_all
  from ReadFile_Open_ReadAll [OF here] obtain f
    where f: "os_Open (path @ ''/'' @ C_Name ct @ ''.status'') fsys = Inr f"
      "io_ReadAll f fsys = Inr (content ct)"
    by blast
  show ?case
  proof (cases "Atoi (strip_newlines (content ct))")
    case (Inl e)
    with Cons.prems(3) f have
      "status_containers path fsys cts
        (acc @ [\<lparr>CS_Name = C_Name ct, CS_State = Terminated (of_int 500) 0 0, CS_Ready = False\<rparr>])
        (p\<lparr>P_statusCode := StatusInternalServerError,
           P_w := reply StatusInternalServerError converting_status_msg (P_w p)\<rparr>) = Next (cs, p')"
      by simp
    from status_containers_body [OF this]
    have "prefix (Body (P_w p) @ converting_status_msg) (Body (P_w p'))"
      by (simp add: reply_Body)
    then obtain t where "Body (P_w p') = Body (P_w p) @ converting_status_msg @ t"
      by (auto simp: prefix_def)
    then show ?thesis
      by (auto simp: sublist_def)
  next
    case (Inr status)
    with Cons.prems(3) f have run:
      "status_containers path fsys cts
        (acc @ [\<lparr>CS_Name = C_Name ct, CS_State = Terminated (of_int status) 0 0, CS_Ready = False\<rparr>])
        p = Next (cs, p')"
      by simp
    from Inr Cons.prems(2) have "\<exists>ct \<in> set cts. \<exists>e. Atoi (strip_newlines (content ct)) = Inl e"
      by auto
    from Cons.IH [OF rest this run] show ?thesis .
  qed
qed

lemma status_pod_body:
  assumes "status_pod ext config podp p st = (Next p', st')"
  shows "prefix (Body (P_w p)) (Body (P_w p'))
       \<and> (P_statusCode p = StatusInternalServerError \<longrightarrow> P_statusCode p' = StatusInternalServerError)"
proof -
  from assms obtain pod j where podp: "podp = Some pod" and entry: "JIDs st (Pod_UID pod) = Some j"
    by (auto simp: status_pod_def Let_def split: option.splits)
  define path where "path = DataRootFolder config @ Pod_Namespace pod @ ''-'' @ Pod_UID pod"
  define args where "args = [''--noheader'', ''-a'', ''-j '' @ JID j]"
  define st2 where "st2 = st\<lparr>calls := calls st @ [(Squeuepath config, args)], ticks := Suc (ticks st)\<rparr>"
  define p1 where "p1 = p\<lparr>P_timeNow := Now ext (ticks st)\<rparr>"
  have p1: "P_w p1 = P_w p" "P_statusCode p1 = P_statusCode p" "P_resp p1 = P_resp p"
    by (simp_all add: p1_def)
  from status_pod_alternatives [OF entry path_def args_def st2_def p1_def]
  consider
    (B) "status_pod ext config (Some pod) p st =
            (case status_containers path (fs st) (Containers pod) [] p1 of
               Stop h \<Rightarrow> (Stop h, st2)
             | Next (containerStatuses, p2) \<Rightarrow>
                 (Next (p2\<lparr>P_resp := P_resp p2 @ [pod_status pod containerStatuses]\<rparr>), st2))"
    | (ended) "status_pod ext config (Some pod) p st = ended_case ext path pod j p1 st2"
    | (running) "status_pod ext config (Some pod) p st = running_case ext path pod j p1 st2"
    | (waiting) "status_pod ext config (Some pod) p st = waiting_case pod p1 st2"
    by blast
  then show ?thesis
  proof cases
    case B
    with assms podp obtain cs p2 where
      run: "status_containers path (fs st) (Containers pod) [] p1 = Next (cs, p2)"
      and p': "p' = p2\<lparr>P_resp := P_resp p2 @ [pod_status pod cs]\<rparr>"
      by (auto split: step.splits prod.splits)
    from status_containers_frame [OF run] status_containers_body [OF run]
    show ?thesis
      using p1 by (simp add: p')
  next
    case ended
    with assms podp have run: "ended_case ext path pod j p1 st2 = (Next p', st')" by simp
    from ended_case_code [OF run] p1 show ?thesis by simp
  next
    case running
    with assms podp have run: "running_case ext path pod j p1 st2 = (Next p', st')" by simp
    from running_case_code [OF run] p1 show ?thesis by simp
  next
    case waiting
    with assms podp have run: "waiting_case pod p1 st2 = (Next p', st')" by simp
    from waiting_case_code [OF run] p1 show ?thesis by simp
  qed
qed

lemma status_pods_body:
  "status_pods ext config pods p st = (Next p', st') \<Longrightarrow>
   prefix (Body (P_w p)) (Body (P_w p'))
   \<and> (P_statusCode p = StatusInternalServerError \<longrightarrow> P_statusCode p' = StatusInternalServerError)"
proof (induction pods arbitrary: p st)
  case Nil
  then show ?case by simp
next
  case (Cons podp pods)
  from Cons.prems obtain p1 st1 where
    first: "status_pod ext config podp p st = (Next p1, st1)"
    and rest: "status_pods ext config pods p1 st1 = (Next p', st')"
    by (auto split: prod.splits step.splits)
  from status_pod_body [OF first] Cons.IH [OF rest] show ?case
    by (auto intro: prefix_order.trans)
qed

text \<open>One round of Branch B, with the response that it leaves or returns.\<close>

lemma status_pod_branch_B:
  assumes entry: "JIDs st (Pod_UID pod) = Some j"
    and stderr: "Stderr (fst (Execute ext (length (calls st)) (Squeuepath config)
                   [''--noheader'', ''-a'', ''-j '' @ JID j])) \<noteq> []"
    and consistent: "response_consistent p"
    and path_def: "path = DataRootFolder config @ Pod_Namespace pod @ ''-'' @ Pod_UID pod"
  shows "((\<forall>ct \<in> set (Containers pod).
             os_ReadFile (path @ ''/'' @ C_Name ct @ ''.status'') (fs st) = Inr (content ct)) \<longrightarrow>
          (\<exists>p' st'. status_pod ext config (Some pod) p st = (Next p', st')
             \<and> P_resp p' = P_resp p @
                 [pod_status pod
                    (map (\<lambda>ct. \<lparr>CS_Name = C_Name ct,
                                CS_State = Terminated
                                  (case Atoi (strip_newlines (content ct)) of
                                     Inl err \<Rightarrow> 500 | Inr status \<Rightarrow> of_int status) 0 0,
                                CS_Ready = False\<rparr>) (Containers pod))]
             \<and> response_consistent p'
             \<and> ((\<exists>ct \<in> set (Containers pod). \<exists>e. Atoi (strip_newlines (content ct)) = Inl e) \<longrightarrow>
                   P_statusCode p' = StatusInternalServerError
                 \<and> sublist converting_status_msg (Body (P_w p')))))
       \<and> ((\<exists>ct \<in> set (Containers pod). \<exists>e.
             os_ReadFile (path @ ''/'' @ C_Name ct @ ''.status'') (fs st) = Inl e) \<longrightarrow>
          (\<exists>w. status_pod ext config (Some pod) p st =
                  (Stop (Returned w),
                   st\<lparr>calls := calls st @ [(Squeuepath config, [''--noheader'', ''-a'', ''-j '' @ JID j])],
                      ticks := Suc (ticks st)\<rparr>)
             \<and> Header w = Some 500
             \<and> (suffix retrieving_status_msg (Body w) \<or> suffix reading_status_msg (Body w))))"
proof -
  define args where "args = [''--noheader'', ''-a'', ''-j '' @ JID j]"
  define st2 where "st2 = st\<lparr>calls := calls st @ [(Squeuepath config, args)], ticks := Suc (ticks st)\<rparr>"
  define p1 where "p1 = p\<lparr>P_timeNow := Now ext (ticks st)\<rparr>"
  have p1: "P_w p1 = P_w p" "P_statusCode p1 = P_statusCode p" "P_resp p1 = P_resp p"
    by (simp_all add: p1_def)
  have c1: "response_consistent p1"
    using consistent by (simp add: response_consistent_def p1)
  from status_pod_alternatives [OF entry path_def args_def st2_def p1_def] stderr
  have step: "status_pod ext config (Some pod) p st =
      (case status_containers path (fs st) (Containers pod) [] p1 of
         Stop h \<Rightarrow> (Stop h, st2)
       | Next (containerStatuses, p2) \<Rightarrow>
           (Next (p2\<lparr>P_resp := P_resp p2 @ [pod_status pod containerStatuses]\<rparr>), st2))"
    by (simp add: args_def)
  have good: "\<exists>p' st'. status_pod ext config (Some pod) p st = (Next p', st')
             \<and> P_resp p' = P_resp p @
                 [pod_status pod
                    (map (\<lambda>ct. \<lparr>CS_Name = C_Name ct,
                                CS_State = Terminated
                                  (case Atoi (strip_newlines (content ct)) of
                                     Inl err \<Rightarrow> 500 | Inr status \<Rightarrow> of_int status) 0 0,
                                CS_Ready = False\<rparr>) (Containers pod))]
             \<and> response_consistent p'
             \<and> ((\<exists>ct \<in> set (Containers pod). \<exists>e. Atoi (strip_newlines (content ct)) = Inl e) \<longrightarrow>
                   P_statusCode p' = StatusInternalServerError
                 \<and> sublist converting_status_msg (Body (P_w p')))"
    if readable: "\<forall>ct \<in> set (Containers pod).
          os_ReadFile (path @ ''/'' @ C_Name ct @ ''.status'') (fs st) = Inr (content ct)"
  proof -
    from status_containers_readable [OF readable, of "[]" p1]
    obtain p2 where run: "status_containers path (fs st) (Containers pod) [] p1 =
           Next (map (\<lambda>ct. \<lparr>CS_Name = C_Name ct,
                                  CS_State = Terminated
                                    (case Atoi (strip_newlines (content ct)) of
                                       Inl err \<Rightarrow> 500 | Inr status \<Rightarrow> of_int status) 0 0,
                                  CS_Ready = False\<rparr>) (Containers pod), p2)"
      and resp: "P_resp p2 = P_resp p1"
      by auto
    from status_containers_frame [OF run] c1 have c2: "response_consistent p2"
      by simp
    have bad: "P_statusCode p2 = StatusInternalServerError
        \<and> sublist converting_status_msg (Body (P_w p2))"
      if "\<exists>ct \<in> set (Containers pod). \<exists>e. Atoi (strip_newlines (content ct)) = Inl e"
      using status_containers_not_integer [OF readable that run]
        status_containers_texts [OF readable that run]
      by simp
    show ?thesis
      unfolding step using run resp c2 bad
      by (simp add: p1 response_consistent_def)
  qed
  have bad: "\<exists>w. status_pod ext config (Some pod) p st = (Stop (Returned w), st2)
             \<and> Header w = Some 500
             \<and> (suffix retrieving_status_msg (Body w) \<or> suffix reading_status_msg (Body w))"
    if "ct \<in> set (Containers pod)"
      and "os_ReadFile (path @ ''/'' @ C_Name ct @ ''.status'') (fs st) = Inl e" for ct e
  proof -
    from status_containers_unreadable [OF that, of "[]" p1]
    obtain w where stop: "status_containers path (fs st) (Containers pod) [] p1 = Stop (Returned w)"
      by auto
    from status_containers_stop [OF stop c1] stop show ?thesis
      unfolding step by simp
  qed
  show ?thesis
    using good bad unfolding st2_def args_def by blast
qed

lemma sublist_grows:
  "sublist x a \<Longrightarrow> prefix a b \<Longrightarrow> sublist x (b @ c)"
  by (auto simp: sublist_def prefix_def) (metis append.assoc)

section \<open>The rate limit of the Status handler\<close>




section \<open>Pods without a registry entry\<close>

lemma write_timestamp_JIDs: "JIDs (snd (write_timestamp ext file msg p st)) = JIDs st"
  by (simp add: write_timestamp_def split: sum.splits prod.splits)

lemma ended_case_unknown:
  "JIDs st uid = None \<Longrightarrow> Pod_UID pod \<noteq> uid \<Longrightarrow>
   JIDs (snd (ended_case ext path pod j p st)) uid = None"
  by (auto simp: ended_case_def Let_def write_timestamp_def
      split: sum.splits prod.splits step.splits list.splits option.splits)

lemma running_case_unknown:
  "JIDs st uid = None \<Longrightarrow> Pod_UID pod \<noteq> uid \<Longrightarrow>
   JIDs (snd (running_case ext path pod j p st)) uid = None"
  by (auto simp: running_case_def Let_def write_timestamp_def
      split: sum.splits prod.splits step.splits list.splits option.splits)

lemma waiting_case_unknown:
  "JIDs st uid = None \<Longrightarrow> JIDs (snd (waiting_case pod p st)) uid = None"
  by (auto simp: waiting_case_def split: list.splits)

lemma status_pod_unknown:
  assumes "JIDs st uid = None"
  shows "JIDs (snd (status_pod ext config podp p st)) uid = None"
proof (cases podp)
  case None
  then show ?thesis using assms by (simp add: status_pod_def)
next
  case (Some pod)
  show ?thesis
  proof (cases "JIDs st (Pod_UID pod)")
    case None
    then show ?thesis using assms Some by (simp add: status_pod_def)
  next
    case (Some j)
    then have neq: "Pod_UID pod \<noteq> uid" using assms by auto
    obtain er ign where ex: "Execute ext (length (calls st)) (Squeuepath config)
        [''--noheader'', ''-a'', ''-j '' @ JID j] = (er, ign)"
      by (cases "Execute ext (length (calls st)) (Squeuepath config)
        [''--noheader'', ''-a'', ''-j '' @ JID j]")
    have ex': "Execute ext (length (calls st)) (Squeuepath config)
        [''--noheader'', ''-a'', CHR ''-'' # CHR ''j'' # CHR '' '' # JID j] = (er, ign)"
      using ex by simp
    show ?thesis
      using \<open>podp = Some pod\<close> Some assms neq
      by (simp add: status_pod_def shell_Execute_def time_Now_def Let_def ex'
          ended_case_unknown running_case_unknown waiting_case_unknown
          split: step.splits prod.splits)
  qed
qed

lemma status_pods_unknown:
  "JIDs st uid = None \<Longrightarrow> JIDs (snd (status_pods ext config pods p st)) uid = None"
proof (induction pods arbitrary: p st)
  case Nil
  then show ?case by simp
next
  case (Cons podp pods)
  from Cons.prems have "JIDs (snd (status_pod ext config podp p st)) uid = None"
    by (rule status_pod_unknown)
  then show ?case
    using Cons.IH by (auto split: prod.splits step.splits)
qed

lemma status_pods_reach_unknown:
  assumes "JIDs st (Pod_UID pod) = None"
  shows "fst (status_pods ext config (before @ Some pod # after) p st) =
           (case fst (status_pods ext config before p st) of
              Stop h \<Rightarrow> Stop h
            | Next p1 \<Rightarrow> Stop (Panicked nil_dereference))"
proof (cases "status_pods ext config before p st")
  case (Pair r st1)
  have "JIDs st1 (Pod_UID pod) = None"
    using status_pods_unknown [OF assms, of ext config before p] Pair by simp
  then show ?thesis
    using Pair by (cases r) (simp_all add: status_pods_append status_pod_def)
qed

text \<open>
  C9. In a full poll cycle (body read, ten seconds elapsed, request decoded, the coarse
  \<open>squeue --me\<close> silent), a requested pod whose UID has no registry entry makes the
  handler panic with a nil dereference as soon as the loop reaches it: the handler's
  result is the panic, unless a pod listed before it has already ended the handler.
\<close>

theorem status_unknown_pod_panics:
  assumes read: "body = Inr bodyBytes"
    and elapsed: "Second * 10 \<le> time_Sub (Now ext (ticks st)) (timer st)"
    and request: "Unmarshal_pods ext bodyBytes = Inr (before @ Some pod # after)"
    and squeue: "Stderr (fst (Execute ext (length (calls st)) ''squeue'' [''--me''])) = []"
    and unknown: "JIDs st (Pod_UID pod) = None"
  shows "fst (StatusHandler ext config body st) =
           (case fst (status_pods ext config before
                        \<lparr>P_resp = [], P_w = new_response, P_statusCode = StatusOK,
                         P_timeNow = Now ext (ticks st)\<rparr>
                        (st\<lparr>ticks := Suc (ticks st), calls := calls st @ [(''squeue'', [''--me''])]\<rparr>)) of
              Stop h \<Rightarrow> h
            | Next p1 \<Rightarrow> Panicked nil_dereference)"
proof -
  define st1 where "st1 = st\<lparr>ticks := Suc (ticks st), calls := calls st @ [(''squeue'', [''--me''])]\<rparr>"
  define p0 where "p0 = \<lparr>P_resp = [], P_w = new_response, P_statusCode = StatusOK,
                         P_timeNow = Now ext (ticks st)\<rparr>"
  have u1: "JIDs st1 (Pod_UID pod) = None" using unknown by (simp add: st1_def)
  have loop: "fst (status_pods ext config (before @ Some pod # after) p0 st1) =
           (case fst (status_pods ext config before p0 st1) of
              Stop h \<Rightarrow> Stop h
            | Next p1 \<Rightarrow> Stop (Panicked nil_dereference))"
    by (rule status_pods_reach_unknown [OF u1])
  obtain r st2 where whole: "status_pods ext config (before @ Some pod # after) p0 st1 = (r, st2)"
    by (cases "status_pods ext config (before @ Some pod # after) p0 st1")
  obtain er ign where ex: "Execute ext (length (calls st)) ''squeue'' [''--me''] = (er, ign)"
    by (cases "Execute ext (length (calls st)) ''squeue'' [''--me'']")
  have quiet: "Stderr er = []" using squeue ex by simp
  have handler: "fst (StatusHandler ext config body st) = (case r of Stop h \<Rightarrow> h | Next p \<Rightarrow>
      Returned (write_response ext (P_statusCode p) (P_resp p) (P_w p)))"
    using read elapsed request quiet whole
    by (simp add: StatusHandler_def time_Now_def shell_Execute_def Let_def st1_def p0_def ex
        split: prod.splits step.splits)
  show ?thesis
    using handler loop whole
    unfolding st1_def [symmetric] p0_def [symmetric]
    by (cases "fst (status_pods ext config before p0 st1)") (auto split: step.splits)
qed

theorem status_unknown_pod_panics_witness:
  "Second * 10 \<le> time_Sub (Now ex_extern (ticks fresh_state)) (timer fresh_state)
   \<and> Unmarshal_pods ex_extern ''request'' = Inr ([] @ Some ex_pod # [])
   \<and> Stderr (fst (Execute ex_extern (length (calls fresh_state)) ''squeue'' [''--me''])) = []
   \<and> JIDs fresh_state (Pod_UID ex_pod) = None
   \<and> fst (StatusHandler ex_extern ex_config (Inr ''request'') fresh_state) = Panicked nil_dereference"
proof -
  have read: "(Inr ''request'' :: error + string) = Inr ''request''"
    by simp
  have elapsed: "Second * 10 \<le> time_Sub (Now ex_extern (ticks fresh_state)) (timer fresh_state)"
    by code_simp
  have request: "Unmarshal_pods ex_extern ''request'' = Inr ([] @ Some ex_pod # [])"
    by (simp add: ex_extern_def)
  have squeue: "Stderr (fst (Execute ex_extern (length (calls fresh_state)) ''squeue'' [''--me''])) = []"
    by code_simp
  have unknown: "JIDs fresh_state (Pod_UID ex_pod) = None"
    by (simp add: fresh_state_def)
  show ?thesis
    using elapsed request squeue unknown
      status_unknown_pod_panics [OF read elapsed request squeue unknown, of ex_config]
    by simp
qed

section \<open>Status of a job that the scheduler no longer knows\<close>

text \<open>
  C3 as stated fails: the query for the job of pod \<open>u1\<close> reports on stderr, and the
  file \<open>data/ns-u1/c.status\<close> does not exist. The claim expects a terminated status
  with exit code 500 for container \<open>c\<close>. The handler ends with the status 500 and an
  error text, and nothing is cached.
\<close>

theorem status_missing_file_aborts:
  "fst (StatusHandler ex_extern ex_config (Inr ''request'') (ex_state\<lparr>fs := ex_fs_no_status\<rparr>))
     = Returned \<lparr>Header = Some 500,
                 Body = ''Error retrieving container status. Check Slurm Sidecar'' @ [CHR 0x27] @ ''s logs''\<rparr>
   \<and> cachedStatus (snd (StatusHandler ex_extern ex_config (Inr ''request'')
                          (ex_state\<lparr>fs := ex_fs_no_status\<rparr>))) = []"
  by code_simp

text \<open>
  C3, amended. In a full poll cycle the loop reaches a pod that has a registry record,
  and the query for its job returns a non-empty stderr. When the status file of every
  declared container can be opened and read, the loop goes on with one pod status more
  in its result list, holding one terminated container status per declared container,
  in order: the exit code is the integer in the file (line feeds dropped, converted to
  \<open>int32\<close>), and 500 when the content is no integer. When the loop then runs to its
  end, the cycle caches a list that holds this pod status; the handler answers 200 with
  the encoding of the list when the status is still 200, and when the content of some
  status file of this pod was no integer it answers 500 with a body that holds the
  conversion error text and ends with the closing error text. When the status file of
  some container cannot be opened or read, the handler ends there: it answers 500 with
  a body that ends with the retrieval or read error text, the pod gets no status, and
  cache and timer stay as they were.
\<close>

theorem status_branch_B:
  assumes read: "body = Inr bodyBytes"
    and elapsed: "Second * 10 \<le> time_Sub (Now ext (ticks st)) (timer st)"
    and request: "Unmarshal_pods ext bodyBytes = Inr (before @ Some pod # after)"
    and squeue: "Stderr (fst (Execute ext (length (calls st)) ''squeue'' [''--me''])) = []"
    and reached: "status_pods ext config before
                    \<lparr>P_resp = [], P_w = new_response, P_statusCode = StatusOK,
                     P_timeNow = Now ext (ticks st)\<rparr>
                    (st\<lparr>ticks := Suc (ticks st), calls := calls st @ [(''squeue'', [''--me''])]\<rparr>)
                  = (Next p1, stb)"
    and entry: "JIDs stb (Pod_UID pod) = Some j"
    and stderr: "Stderr (fst (Execute ext (length (calls stb)) (Squeuepath config)
                   [''--noheader'', ''-a'', ''-j '' @ JID j])) \<noteq> []"
  shows "((\<forall>ct \<in> set (Containers pod).
             os_ReadFile (DataRootFolder config @ Pod_Namespace pod @ ''-'' @ Pod_UID pod @ ''/'' @
                          C_Name ct @ ''.status'') (fs stb) = Inr (content ct)) \<longrightarrow>
          (\<exists>p2 st2.
             status_pods ext config (before @ [Some pod])
               \<lparr>P_resp = [], P_w = new_response, P_statusCode = StatusOK,
                P_timeNow = Now ext (ticks st)\<rparr>
               (st\<lparr>ticks := Suc (ticks st), calls := calls st @ [(''squeue'', [''--me''])]\<rparr>)
             = (Next p2, st2)
           \<and> P_resp p2 = P_resp p1 @
               [pod_status pod
                  (map (\<lambda>ct. \<lparr>CS_Name = C_Name ct,
                              CS_State = Terminated
                                (case Atoi (strip_newlines (content ct)) of
                                   Inl err \<Rightarrow> 500 | Inr status \<Rightarrow> of_int status) 0 0,
                              CS_Ready = False\<rparr>) (Containers pod))]
           \<and> (\<forall>p3 st3. status_pods ext config after p2 st2 = (Next p3, st3) \<longrightarrow>
                 prefix (P_resp p2) (P_resp p3)
               \<and> cachedStatus (snd (StatusHandler ext config body st)) = P_resp p3
               \<and> (\<forall>encoded. P_statusCode p3 = StatusOK \<and> Marshal ext (P_resp p3) = Inr encoded \<longrightarrow>
                     fst (StatusHandler ext config body st)
                       = Returned \<lparr>Header = Some 200, Body = encoded\<rparr>)
               \<and> ((\<exists>ct \<in> set (Containers pod). \<exists>e. Atoi (strip_newlines (content ct)) = Inl e) \<longrightarrow>
                     (\<exists>w. fst (StatusHandler ext config body st) = Returned w
                        \<and> Header w = Some 500
                        \<and> sublist converting_status_msg (Body w)
                        \<and> suffix deleting_msg (Body w))))))
       \<and> ((\<exists>ct \<in> set (Containers pod). \<exists>e.
             os_ReadFile (DataRootFolder config @ Pod_Namespace pod @ ''-'' @ Pod_UID pod @ ''/'' @
                          C_Name ct @ ''.status'') (fs stb) = Inl e) \<longrightarrow>
          (\<exists>w. fst (StatusHandler ext config body st) = Returned w
             \<and> Header w = Some 500
             \<and> (suffix retrieving_status_msg (Body w) \<or> suffix reading_status_msg (Body w))
             \<and> cachedStatus (snd (StatusHandler ext config body st)) = cachedStatus st
             \<and> timer (snd (StatusHandler ext config body st)) = timer st))"
proof -
  define p0 where "p0 = \<lparr>P_resp = [], P_w = new_response, P_statusCode = StatusOK,
                        P_timeNow = Now ext (ticks st)\<rparr>"
  define st1 where "st1 = st\<lparr>ticks := Suc (ticks st), calls := calls st @ [(''squeue'', [''--me''])]\<rparr>"
  define path where "path = DataRootFolder config @ Pod_Namespace pod @ ''-'' @ Pod_UID pod"
  define stq where "stq = stb\<lparr>calls := calls stb @ [(Squeuepath config, [''--noheader'', ''-a'', ''-j '' @ JID j])],
                             ticks := Suc (ticks stb)\<rparr>"
  note reached' = reached [folded p0_def st1_def]
  have handler: "StatusHandler ext config body st =
           (case status_pods ext config (before @ Some pod # after) p0 st1 of
              (Stop h, st2) \<Rightarrow> (h, st2)
            | (Next p, st2) \<Rightarrow>
                (Returned (write_response ext (P_statusCode p) (P_resp p) (P_w p)),
                 st2\<lparr>cachedStatus := P_resp p, ticks := Suc (ticks st2),
                     timer := Now ext (ticks st2)\<rparr>))"
    using StatusHandler_cycle [OF read elapsed request squeue]
    by (simp only: p0_def st1_def)
  have all: "status_pods ext config (before @ Some pod # after) p0 st1 =
      (case status_pod ext config (Some pod) p1 stb of
         (Stop h, s) \<Rightarrow> (Stop h, s)
       | (Next p2, s) \<Rightarrow> status_pods ext config after p2 s)"
    using reached' by (simp add: status_pods_append)
  have upto: "status_pods ext config (before @ [Some pod]) p0 st1 =
      (case status_pod ext config (Some pod) p1 stb of
         (Stop h, s) \<Rightarrow> (Stop h, s)
       | (Next p2, s) \<Rightarrow> (Next p2, s))"
    using reached' by (simp add: status_pods_append split: prod.splits step.splits)
  have c0: "response_consistent p0"
    by (simp add: response_consistent_def p0_def)
  from status_pods_frame [OF reached'] c0 have c1: "response_consistent p1"
    by simp
  note round = status_pod_branch_B [OF entry stderr c1 path_def, of content, folded stq_def]
  have kept: "cachedStatus stb = cachedStatus st" "timer stb = timer st"
    using status_pods_cache [of ext config before p0 st1] reached'
    by (simp_all add: st1_def)
  have good: "\<exists>p2 st2.
             status_pods ext config (before @ [Some pod]) p0 st1 = (Next p2, st2)
           \<and> P_resp p2 = P_resp p1 @
               [pod_status pod
                  (map (\<lambda>ct. \<lparr>CS_Name = C_Name ct,
                              CS_State = Terminated
                                (case Atoi (strip_newlines (content ct)) of
                                   Inl err \<Rightarrow> 500 | Inr status \<Rightarrow> of_int status) 0 0,
                              CS_Ready = False\<rparr>) (Containers pod))]
           \<and> (\<forall>p3 st3. status_pods ext config after p2 st2 = (Next p3, st3) \<longrightarrow>
                 prefix (P_resp p2) (P_resp p3)
               \<and> cachedStatus (snd (StatusHandler ext config body st)) = P_resp p3
               \<and> (\<forall>encoded. P_statusCode p3 = StatusOK \<and> Marshal ext (P_resp p3) = Inr encoded \<longrightarrow>
                     fst (StatusHandler ext config body st)
                       = Returned \<lparr>Header = Some 200, Body = encoded\<rparr>)
               \<and> ((\<exists>ct \<in> set (Containers pod). \<exists>e. Atoi (strip_newlines (content ct)) = Inl e) \<longrightarrow>
                     (\<exists>w. fst (StatusHandler ext config body st) = Returned w
                        \<and> Header w = Some 500
                        \<and> sublist converting_status_msg (Body w)
                        \<and> suffix deleting_msg (Body w))))"
    if readable: "\<forall>ct \<in> set (Containers pod).
             os_ReadFile (path @ ''/'' @ C_Name ct @ ''.status'') (fs stb) = Inr (content ct)"
  proof -
    from round readable obtain p2 st2 where
      one: "status_pod ext config (Some pod) p1 stb = (Next p2, st2)"
      and resp: "P_resp p2 = P_resp p1 @
               [pod_status pod
                  (map (\<lambda>ct. \<lparr>CS_Name = C_Name ct,
                              CS_State = Terminated
                                (case Atoi (strip_newlines (content ct)) of
                                   Inl err \<Rightarrow> 500 | Inr status \<Rightarrow> of_int status) 0 0,
                              CS_Ready = False\<rparr>) (Containers pod))]"
      and c2: "response_consistent p2"
      and noint: "(\<exists>ct \<in> set (Containers pod). \<exists>e. Atoi (strip_newlines (content ct)) = Inl e) \<longrightarrow>
                   P_statusCode p2 = StatusInternalServerError
                 \<and> sublist converting_status_msg (Body (P_w p2))"
      by blast
    have upto': "status_pods ext config (before @ [Some pod]) p0 st1 = (Next p2, st2)"
      using upto one by simp
    have after: "prefix (P_resp p2) (P_resp p3)
               \<and> cachedStatus (snd (StatusHandler ext config body st)) = P_resp p3
               \<and> (\<forall>encoded. P_statusCode p3 = StatusOK \<and> Marshal ext (P_resp p3) = Inr encoded \<longrightarrow>
                     fst (StatusHandler ext config body st)
                       = Returned \<lparr>Header = Some 200, Body = encoded\<rparr>)
               \<and> ((\<exists>ct \<in> set (Containers pod). \<exists>e. Atoi (strip_newlines (content ct)) = Inl e) \<longrightarrow>
                     (\<exists>w. fst (StatusHandler ext config body st) = Returned w
                        \<and> Header w = Some 500
                        \<and> sublist converting_status_msg (Body w)
                        \<and> suffix deleting_msg (Body w)))"
      if rest: "status_pods ext config after p2 st2 = (Next p3, st3)" for p3 st3
    proof -
      have loop: "status_pods ext config (before @ Some pod # after) p0 st1 = (Next p3, st3)"
        using all one rest by simp
      have result: "StatusHandler ext config body st =
          (Returned (write_response ext (P_statusCode p3) (P_resp p3) (P_w p3)),
           st3\<lparr>cachedStatus := P_resp p3, ticks := Suc (ticks st3), timer := Now ext (ticks st3)\<rparr>)"
        using handler loop by simp
      from status_pods_frame [OF rest] c2 have grow: "prefix (P_resp p2) (P_resp p3)"
        and c3: "response_consistent p3"
        by simp_all
      have cache: "cachedStatus (snd (StatusHandler ext config body st)) = P_resp p3"
        by (simp add: result)
      have fine: "fst (StatusHandler ext config body st) = Returned \<lparr>Header = Some 200, Body = encoded\<rparr>"
        if ok: "P_statusCode p3 = StatusOK" and enc: "Marshal ext (P_resp p3) = Inr encoded"
        for encoded
      proof -
        from status_pods_code [OF loop ok] have "P_w p3 = new_response"
          by (simp add: p0_def)
        then show ?thesis
          using ok write_response_encoded [OF enc] by (simp add: result)
      qed
      have texts: "\<exists>w. fst (StatusHandler ext config body st) = Returned w
                        \<and> Header w = Some 500
                        \<and> sublist converting_status_msg (Body w)
                        \<and> suffix deleting_msg (Body w)"
        if "\<exists>ct \<in> set (Containers pod). \<exists>e. Atoi (strip_newlines (content ct)) = Inl e"
      proof -
        from noint that have code2: "P_statusCode p2 = StatusInternalServerError"
          and text2: "sublist converting_status_msg (Body (P_w p2))"
          by simp_all
        from status_pods_body [OF rest] code2
        have body3: "prefix (Body (P_w p2)) (Body (P_w p3))"
          and code3: "P_statusCode p3 = StatusInternalServerError"
          by simp_all
        then have "P_statusCode p3 \<noteq> StatusOK"
          by (simp add: StatusOK_def StatusInternalServerError_def)
        from write_response_error [OF this c3, of ext]
        have hdr: "Header (write_response ext (P_statusCode p3) (P_resp p3) (P_w p3)) = Some 500"
          and bdy: "Body (write_response ext (P_statusCode p3) (P_resp p3) (P_w p3))
                      = Body (P_w p3) @ deleting_msg"
          by simp_all
        have "sublist converting_status_msg (Body (P_w p3) @ deleting_msg)"
          using text2 body3 by (rule sublist_grows)
        then show ?thesis
          using hdr bdy by (simp add: result suffix_def)
      qed
      show ?thesis
        using grow cache fine texts by blast
    qed
    show ?thesis
      using upto' resp after by blast
  qed
  have bad: "\<exists>w. fst (StatusHandler ext config body st) = Returned w
             \<and> Header w = Some 500
             \<and> (suffix retrieving_status_msg (Body w) \<or> suffix reading_status_msg (Body w))
             \<and> cachedStatus (snd (StatusHandler ext config body st)) = cachedStatus st
             \<and> timer (snd (StatusHandler ext config body st)) = timer st"
    if unreadable: "\<exists>ct \<in> set (Containers pod). \<exists>e.
             os_ReadFile (path @ ''/'' @ C_Name ct @ ''.status'') (fs stb) = Inl e"
  proof -
    from round unreadable obtain w where
      one: "status_pod ext config (Some pod) p1 stb = (Stop (Returned w), stq)"
      and w: "Header w = Some 500"
        "suffix retrieving_status_msg (Body w) \<or> suffix reading_status_msg (Body w)"
      by blast
    have "StatusHandler ext config body st = (Returned w, stq)"
      using handler all one by simp
    then show ?thesis
      using w kept by (simp add: stq_def)
  qed
  show ?thesis
    using good bad unfolding path_def p0_def st1_def
    by (simp only: append_assoc) blast
qed

theorem status_branch_B_witness:
  "Second * 10 \<le> time_Sub (Now two_container_extern (ticks ex_state)) (timer ex_state)
   \<and> Unmarshal_pods two_container_extern ''request'' = Inr [Some two_container_pod]
   \<and> JIDs ex_state (Pod_UID two_container_pod) = Some ex_jid
   \<and> (\<exists>p2 st2.
         status_pods two_container_extern ex_config [Some two_container_pod]
           \<lparr>P_resp = [], P_w = new_response, P_statusCode = StatusOK,
            P_timeNow = Now two_container_extern (ticks ex_state)\<rparr>
           (ex_state\<lparr>ticks := Suc (ticks ex_state),
                     calls := calls ex_state @ [(''squeue'', [''--me''])]\<rparr>)
         = (Next p2, st2)
       \<and> P_resp p2 =
           [pod_status two_container_pod
              [\<lparr>CS_Name = ''c'', CS_State = Terminated 0 0 0, CS_Ready = False\<rparr>,
               \<lparr>CS_Name = ''d'', CS_State = Terminated 500 0 0, CS_Ready = False\<rparr>]]
       \<and> cachedStatus (snd (StatusHandler two_container_extern ex_config (Inr ''request'') ex_state))
           = P_resp p2)
   \<and> (\<exists>w. fst (StatusHandler two_container_extern ex_config (Inr ''request'') ex_state) = Returned w
         \<and> Header w = Some 500
         \<and> sublist converting_status_msg (Body w)
         \<and> suffix deleting_msg (Body w))
   \<and> (\<exists>w. fst (StatusHandler two_container_extern ex_config (Inr ''request'')
                  (ex_state\<lparr>fs := ex_fs_no_status\<rparr>)) = Returned w
         \<and> Header w = Some 500
         \<and> (suffix retrieving_status_msg (Body w) \<or> suffix reading_status_msg (Body w))
         \<and> cachedStatus (snd (StatusHandler two_container_extern ex_config (Inr ''request'')
                                 (ex_state\<lparr>fs := ex_fs_no_status\<rparr>))) = [])"
proof -
  define p0 where "p0 = \<lparr>P_resp = [], P_w = new_response, P_statusCode = StatusOK,
                        P_timeNow = Now two_container_extern (ticks ex_state)\<rparr>"
  define st1 where "st1 = ex_state\<lparr>ticks := Suc (ticks ex_state),
                                  calls := calls ex_state @ [(''squeue'', [''--me''])]\<rparr>"
  define bare where "bare = ex_state\<lparr>fs := ex_fs_no_status\<rparr>"
  define bare1 where "bare1 = bare\<lparr>ticks := Suc (ticks bare),
                                  calls := calls bare @ [(''squeue'', [''--me''])]\<rparr>"
  define content :: "Container \<Rightarrow> string"
    where "content = (\<lambda>ct. if C_Name ct = ''c'' then ''0'' @ NL else ''killed'')"
  have elapsed: "Second * 10 \<le> time_Sub (Now two_container_extern (ticks ex_state)) (timer ex_state)"
    by code_simp
  have elapsed': "Second * 10 \<le> time_Sub (Now two_container_extern (ticks bare)) (timer bare)"
    unfolding bare_def by code_simp
  have request: "Unmarshal_pods two_container_extern ''request'' = Inr ([] @ Some two_container_pod # [])"
    by (simp add: two_container_extern_def)
  have squeue: "Stderr (fst (Execute two_container_extern (length (calls ex_state)) ''squeue'' [''--me''])) = []"
    by code_simp
  have squeue': "Stderr (fst (Execute two_container_extern (length (calls bare)) ''squeue'' [''--me''])) = []"
    unfolding bare_def by code_simp
  have reached: "status_pods two_container_extern ex_config [] p0 st1 = (Next p0, st1)"
    by simp
  have reached': "status_pods two_container_extern ex_config []
      \<lparr>P_resp = [], P_w = new_response, P_statusCode = StatusOK,
       P_timeNow = Now two_container_extern (ticks bare)\<rparr> bare1
      = (Next \<lparr>P_resp = [], P_w = new_response, P_statusCode = StatusOK,
               P_timeNow = Now two_container_extern (ticks bare)\<rparr>, bare1)"
    by simp
  have entry0: "JIDs ex_state (Pod_UID two_container_pod) = Some ex_jid"
    by (simp add: ex_state_def two_container_pod_def ex_pod_def)
  have entry: "JIDs st1 (Pod_UID two_container_pod) = Some ex_jid"
    using entry0 by (simp add: st1_def)
  have entry': "JIDs bare1 (Pod_UID two_container_pod) = Some ex_jid"
    using entry0 by (simp add: bare1_def bare_def)
  have stderr: "Stderr (fst (Execute two_container_extern (length (calls st1)) (Squeuepath ex_config)
                   [''--noheader'', ''-a'', ''-j '' @ JID ex_jid])) \<noteq> []"
    unfolding st1_def by code_simp
  have stderr': "Stderr (fst (Execute two_container_extern (length (calls bare1)) (Squeuepath ex_config)
                   [''--noheader'', ''-a'', ''-j '' @ JID ex_jid])) \<noteq> []"
    unfolding bare1_def bare_def by code_simp
  have containers: "Containers two_container_pod = [ex_container, ex_container_d]"
    by (simp add: two_container_pod_def)
  have names: "C_Name ex_container = ''c''" "C_Name ex_container_d = ''d''"
    by (simp_all add: ex_container_def ex_container_d_def)
  have file_c: "os_ReadFile (DataRootFolder ex_config @ Pod_Namespace two_container_pod @ ''-'' @
        Pod_UID two_container_pod @ ''/'' @ C_Name ex_container @ ''.status'') (fs st1)
      = Inr (''0'' @ NL)"
    unfolding st1_def by code_simp
  have file_d: "os_ReadFile (DataRootFolder ex_config @ Pod_Namespace two_container_pod @ ''-'' @
        Pod_UID two_container_pod @ ''/'' @ C_Name ex_container_d @ ''.status'') (fs st1)
      = Inr ''killed''"
    unfolding st1_def by code_simp
  have readable: "\<forall>ct \<in> set (Containers two_container_pod).
      os_ReadFile (DataRootFolder ex_config @ Pod_Namespace two_container_pod @ ''-'' @
        Pod_UID two_container_pod @ ''/'' @ C_Name ct @ ''.status'') (fs st1) = Inr (content ct)"
    unfolding containers using file_c file_d by (simp add: content_def names)
  have code_c: "(case Atoi (strip_newlines (content ex_container)) of
                   Inl err \<Rightarrow> 500 | Inr status \<Rightarrow> of_int status) = (0 :: 32 word)"
    unfolding content_def names by code_simp
  have code_d: "(case Atoi (strip_newlines (content ex_container_d)) of
                   Inl err \<Rightarrow> 500 | Inr status \<Rightarrow> of_int status) = (500 :: 32 word)"
    unfolding content_def names by code_simp
  have killed: "Atoi (strip_newlines (content ex_container_d)) = Inl (NumError ''invalid syntax'')"
    unfolding content_def names by code_simp
  then have noint: "\<exists>ct \<in> set (Containers two_container_pod). \<exists>e.
      Atoi (strip_newlines (content ct)) = Inl e"
    unfolding containers by simp
  have missing: "\<exists>ct \<in> set (Containers two_container_pod). \<exists>e.
      os_ReadFile (DataRootFolder ex_config @ Pod_Namespace two_container_pod @ ''-'' @
        Pod_UID two_container_pod @ ''/'' @ C_Name ct @ ''.status'') (fs bare1) = Inl e"
  proof -
    have "os_ReadFile (DataRootFolder ex_config @ Pod_Namespace two_container_pod @ ''-'' @
        Pod_UID two_container_pod @ ''/'' @ C_Name ex_container @ ''.status'') (fs bare1)
        = Inl (PathError ''open'' ''data/ns-u1/c.status'')"
      unfolding bare1_def bare_def by code_simp
    then show ?thesis unfolding containers by auto
  qed
  have empty: "cachedStatus bare = []"
    by (simp add: bare_def ex_state_def)
  note full = status_branch_B [OF refl elapsed request squeue reached [unfolded p0_def st1_def]
      entry [unfolded st1_def] stderr [unfolded st1_def], of content]
  have good: "\<exists>p2 st2.
         status_pods two_container_extern ex_config [Some two_container_pod] p0 st1 = (Next p2, st2)
       \<and> P_resp p2 =
           [pod_status two_container_pod
              [\<lparr>CS_Name = ''c'', CS_State = Terminated 0 0 0, CS_Ready = False\<rparr>,
               \<lparr>CS_Name = ''d'', CS_State = Terminated 500 0 0, CS_Ready = False\<rparr>]]
       \<and> cachedStatus (snd (StatusHandler two_container_extern ex_config (Inr ''request'') ex_state))
           = P_resp p2"
    using full readable [unfolded st1_def] unfolding containers
    by (simp add: code_c code_d names p0_def st1_def) blast
  have texts: "\<exists>w. fst (StatusHandler two_container_extern ex_config (Inr ''request'') ex_state) = Returned w
         \<and> Header w = Some 500
         \<and> sublist converting_status_msg (Body w)
         \<and> suffix deleting_msg (Body w)"
    using full readable [unfolded st1_def] noint
    by (simp only: append_Nil status_pods.simps prod.inject step.inject) blast
  from status_branch_B [OF refl elapsed' request squeue' reached' [unfolded bare1_def]
      entry' [unfolded bare1_def] stderr' [unfolded bare1_def], of content]
  have bad: "\<exists>w. fst (StatusHandler two_container_extern ex_config (Inr ''request'') bare) = Returned w
         \<and> Header w = Some 500
         \<and> (suffix retrieving_status_msg (Body w) \<or> suffix reading_status_msg (Body w))
         \<and> cachedStatus (snd (StatusHandler two_container_extern ex_config (Inr ''request'') bare)) = []"
    using missing [unfolded bare1_def] empty by auto
  show ?thesis
    using elapsed request entry0 good texts bad unfolding p0_def st1_def bare_def by simp
qed

section \<open>Registry recovery\<close>

text \<open>
  C5 as stated fails: the data root holds the directories \<open>b\<close>, \<open>a\<close>, \<open>z\<close>, in this
  order, and \<open>a\<close> has no \<open>JobID.jid\<close>. The claim expects \<open>z\<close>, which has one, to be
  recovered. \<open>LoadJIDs\<close> returns the error of reading \<open>data/a/JobID.jid\<close>, and the
  registry has no entry for \<open>z\<close>.
\<close>

theorem LoadJIDs_stops_at_missing_jid:
  "fst (LoadJIDs ex_extern ex_config (fresh_state\<lparr>fs := recovery_fs\<rparr>))
     = Error (PathError ''open'' ''data/a/JobID.jid'')
   \<and> os_ReadFile ''data/z/JobID.jid'' recovery_fs = Inr ''9''
   \<and> JIDs (snd (LoadJIDs ex_extern ex_config (fresh_state\<lparr>fs := recovery_fs\<rparr>))) ''z'' = None"
  by code_simp

lemma LoadJIDs_loop_fs: "fs (snd (LoadJIDs_loop ext path entries st)) = fs st"
  by (induction entries arbitrary: st) (auto split: sum.splits)

lemma LoadJIDs_loop_append:
  "LoadJIDs_loop ext path (xs @ ys) st =
     (case LoadJIDs_loop ext path xs st of
        (Ok u, st1) \<Rightarrow> LoadJIDs_loop ext path ys st1
      | (Error e, st1) \<Rightarrow> (Error e, st1)
      | (Panic m, st1) \<Rightarrow> (Panic m, st1))"
  by (induction xs arbitrary: st) (auto split: sum.splits)

lemma LoadJIDs_loop_complete:
  assumes "\<forall>n. (n, True) \<in> set entries \<longrightarrow>
             (\<exists>jid. os_ReadFile (path @ n @ ''/'' @ ''JobID.jid'') (fs st) = Inr jid)"
  shows "\<exists>st'. LoadJIDs_loop ext path entries st = (Ok (), st') \<and> fs st' = fs st
           \<and> (\<forall>n. (n, True) \<notin> set entries \<longrightarrow> JIDs st' n = JIDs st n)"
  using assms
proof (induction entries arbitrary: st)
  case Nil
  then show ?case by simp
next
  case (Cons entry entries)
  obtain n d where entry: "entry = (n, d)" by (cases entry)
  show ?case
  proof (cases d)
    case False
    with Cons entry show ?thesis by auto
  next
    case True
    with Cons.prems entry obtain jid
      where jid: "os_ReadFile (path @ n @ ''/'' @ ''JobID.jid'') (fs st) = Inr jid"
      by auto
    define st1 where "st1 = st\<lparr>JIDs := (JIDs st)(n \<mapsto> recover_entry ext path n jid (fs st))\<rparr>"
    have "\<forall>m. (m, True) \<in> set entries \<longrightarrow>
             (\<exists>jid. os_ReadFile (path @ m @ ''/'' @ ''JobID.jid'') (fs st1) = Inr jid)"
      using Cons.prems by (simp add: st1_def)
    from Cons.IH [OF this] obtain st' where
      run: "LoadJIDs_loop ext path entries st1 = (Ok (), st')" and "fs st' = fs st1"
      and frame: "\<forall>m. (m, True) \<notin> set entries \<longrightarrow> JIDs st' m = JIDs st1 m"
      by blast
    have "LoadJIDs_loop ext path (entry # entries) st = (Ok (), st')"
      using entry True jid run by (simp add: st1_def)
    moreover have "fs st' = fs st" using \<open>fs st' = fs st1\<close> by (simp add: st1_def)
    moreover have "\<forall>m. (m, True) \<notin> set (entry # entries) \<longrightarrow> JIDs st' m = JIDs st m"
      using frame entry True by (auto simp: st1_def)
    ultimately show ?thesis by blast
  qed
qed

lemma LoadJIDs_loop_stable:
  assumes "JIDs st n = Some (recover_entry ext path n jid (fs st))"
    and "os_ReadFile (path @ n @ ''/'' @ ''JobID.jid'') (fs st) = Inr jid"
  shows "JIDs (snd (LoadJIDs_loop ext path entries st)) n = Some (recover_entry ext path n jid (fs st))"
  using assms
proof (induction entries arbitrary: st)
  case Nil
  then show ?case by simp
next
  case (Cons entry entries)
  obtain m d where entry: "entry = (m, d)" by (cases entry)
  show ?case
  proof (cases "d \<and> (\<exists>jid'. os_ReadFile (path @ m @ ''/'' @ ''JobID.jid'') (fs st) = Inr jid')")
    case False
    then show ?thesis
      using Cons entry by (cases d) (auto split: sum.splits)
  next
    case True
    then obtain jid' where jid': "os_ReadFile (path @ m @ ''/'' @ ''JobID.jid'') (fs st) = Inr jid'"
      and d: d by blast
    define st1 where "st1 = st\<lparr>JIDs := (JIDs st)(m \<mapsto> recover_entry ext path m jid' (fs st))\<rparr>"
    have same: "JIDs st1 n = Some (recover_entry ext path n jid (fs st1))"
      using Cons.prems jid' by (auto simp: st1_def)
    have jidfile: "os_ReadFile (path @ n @ ''/'' @ ''JobID.jid'') (fs st1) = Inr jid"
      using Cons.prems by (simp add: st1_def)
    have "LoadJIDs_loop ext path (entry # entries) st = LoadJIDs_loop ext path entries st1"
      using entry d jid' by (simp add: st1_def)
    then show ?thesis
      using Cons.IH [OF same jidfile] by (simp add: st1_def)
  qed
qed

lemma read_timestamp_missing:
  "os_ReadFile file fsys = Inl e \<Longrightarrow> read_timestamp ext file fsys = 0"
  by (simp add: read_timestamp_def)

text \<open>
  C5, amended. Let every directory listed before \<open>name\<close> have a readable
  \<open>JobID.jid\<close>. If \<open>JobID.jid\<close> of \<open>name\<close> cannot be read, recovery returns that error
  and the registry is unchanged for every name that is not a directory listed before
  (no later directory is visited). If it can be read, the registry ends with a record
  for \<open>name\<close> holding that job identifier, whatever happens at later entries; its
  start instant is the zero instant when \<open>StartedAt.time\<close> cannot be read, and its end
  instant is the zero instant when \<open>FinishedAt.time\<close> cannot be read.
\<close>

theorem LoadJIDs_loop_entry:
  assumes reached: "\<forall>n. (n, True) \<in> set before \<longrightarrow>
             (\<exists>jid. os_ReadFile (path @ n @ ''/'' @ ''JobID.jid'') (fs st) = Inr jid)"
  shows "(\<forall>err. os_ReadFile (path @ name @ ''/'' @ ''JobID.jid'') (fs st) = Inl err \<longrightarrow>
            (\<exists>st'. LoadJIDs_loop ext path (before @ (name, True) # after) st = (Error err, st')
               \<and> (\<forall>n. (n, True) \<notin> set before \<longrightarrow> JIDs st' n = JIDs st n)))
       \<and> (\<forall>jid. os_ReadFile (path @ name @ ''/'' @ ''JobID.jid'') (fs st) = Inr jid \<longrightarrow>
            (\<exists>r. JIDs (snd (LoadJIDs_loop ext path (before @ (name, True) # after) st)) name = Some r
               \<and> PodUID r = name \<and> JID r = jid
               \<and> ((\<exists>e. os_ReadFile (path @ name @ ''/'' @ ''StartedAt.time'') (fs st) = Inl e)
                    \<longrightarrow> StartTime r = 0)
               \<and> ((\<exists>e. os_ReadFile (path @ name @ ''/'' @ ''FinishedAt.time'') (fs st) = Inl e)
                    \<longrightarrow> EndTime r = 0)))"
proof -
  from LoadJIDs_loop_complete [OF reached, of ext] obtain st1 where
    pre: "LoadJIDs_loop ext path before st = (Ok (), st1)" and fs1: "fs st1 = fs st"
    and frame: "\<forall>n. (n, True) \<notin> set before \<longrightarrow> JIDs st1 n = JIDs st n"
    by blast
  have whole: "LoadJIDs_loop ext path (before @ (name, True) # after) st =
      LoadJIDs_loop ext path ((name, True) # after) st1"
    by (simp add: LoadJIDs_loop_append pre)
  have missing: "\<exists>st'. LoadJIDs_loop ext path (before @ (name, True) # after) st = (Error err, st')
               \<and> (\<forall>n. (n, True) \<notin> set before \<longrightarrow> JIDs st' n = JIDs st n)"
    if "os_ReadFile (path @ name @ ''/'' @ ''JobID.jid'') (fs st) = Inl err" for err
    using that frame by (simp add: whole fs1)
  have present: "\<exists>r. JIDs (snd (LoadJIDs_loop ext path (before @ (name, True) # after) st)) name = Some r
               \<and> PodUID r = name \<and> JID r = jid
               \<and> ((\<exists>e. os_ReadFile (path @ name @ ''/'' @ ''StartedAt.time'') (fs st) = Inl e)
                    \<longrightarrow> StartTime r = 0)
               \<and> ((\<exists>e. os_ReadFile (path @ name @ ''/'' @ ''FinishedAt.time'') (fs st) = Inl e)
                    \<longrightarrow> EndTime r = 0)"
    if jid: "os_ReadFile (path @ name @ ''/'' @ ''JobID.jid'') (fs st) = Inr jid" for jid
  proof -
    define st2 where "st2 = st1\<lparr>JIDs := (JIDs st1)(name \<mapsto> recover_entry ext path name jid (fs st1))\<rparr>"
    have step: "LoadJIDs_loop ext path ((name, True) # after) st1 = LoadJIDs_loop ext path after st2"
      using jid by (simp add: fs1 st2_def)
    have fs2: "fs st2 = fs st"
      by (simp add: st2_def fs1)
    have "JIDs st2 name = Some (recover_entry ext path name jid (fs st2))"
      by (simp add: st2_def)
    moreover have "os_ReadFile (path @ name @ ''/'' @ ''JobID.jid'') (fs st2) = Inr jid"
      using jid by (simp add: st2_def fs1)
    ultimately have "JIDs (snd (LoadJIDs_loop ext path after st2)) name =
        Some (recover_entry ext path name jid (fs st2))"
      by (rule LoadJIDs_loop_stable)
    then have final: "JIDs (snd (LoadJIDs_loop ext path (before @ (name, True) # after) st)) name =
        Some (recover_entry ext path name jid (fs st))"
      unfolding whole step fs2 .
    show ?thesis
      unfolding final
      by (auto simp: recover_entry_def Let_def read_timestamp_missing)
  qed
  show ?thesis using missing present by blast
qed

theorem LoadJIDs_loop_entry_witness:
  "os_ReadFile (''data/'' @ ''b'' @ ''/'' @ ''JobID.jid'') (fs (fresh_state\<lparr>fs := recovery_fs\<rparr>))
       = Inr ''7''
   \<and> os_ReadFile (''data/'' @ ''a'' @ ''/'' @ ''JobID.jid'') (fs (fresh_state\<lparr>fs := recovery_fs\<rparr>))
       = Inl (PathError ''open'' ''data/a/JobID.jid'')
   \<and> (\<exists>st'. LoadJIDs_loop ex_extern ''data/'' ([(''b'', True)] @ (''a'', True) # [(''z'', True)])
               (fresh_state\<lparr>fs := recovery_fs\<rparr>)
             = (Error (PathError ''open'' ''data/a/JobID.jid''), st')
          \<and> JIDs st' ''z'' = None)
   \<and> (\<exists>r. JIDs (snd (LoadJIDs_loop ex_extern ''data/'' ([] @ (''b'', True) # [(''a'', True), (''z'', True)])
                        (fresh_state\<lparr>fs := recovery_fs\<rparr>))) ''b'' = Some r
          \<and> PodUID r = ''b'' \<and> JID r = ''7'' \<and> StartTime r = 0 \<and> EndTime r = 0)"
proof -
  define st where "st = fresh_state\<lparr>fs := recovery_fs\<rparr>"
  have jid_b: "os_ReadFile (''data/'' @ ''b'' @ ''/'' @ ''JobID.jid'') (fs st) = Inr ''7''"
    unfolding st_def by code_simp
  have jid_a: "os_ReadFile (''data/'' @ ''a'' @ ''/'' @ ''JobID.jid'') (fs st)
      = Inl (PathError ''open'' ''data/a/JobID.jid'')"
    unfolding st_def by code_simp
  have started_b: "os_ReadFile (''data/'' @ ''b'' @ ''/'' @ ''StartedAt.time'') (fs st)
      = Inl (PathError ''open'' ''data/b/StartedAt.time'')"
    unfolding st_def by code_simp
  have finished_b: "os_ReadFile (''data/'' @ ''b'' @ ''/'' @ ''FinishedAt.time'') (fs st)
      = Inl (PathError ''open'' ''data/b/FinishedAt.time'')"
    unfolding st_def by code_simp
  have reached_b: "\<forall>n. (n, True) \<in> set [(''b'', True)] \<longrightarrow>
      (\<exists>jid. os_ReadFile (''data/'' @ n @ ''/'' @ ''JobID.jid'') (fs st) = Inr jid)"
    using jid_b by simp
  have reached_none: "\<forall>n. (n, True) \<in> set [] \<longrightarrow>
      (\<exists>jid. os_ReadFile (''data/'' @ n @ ''/'' @ ''JobID.jid'') (fs st) = Inr jid)"
    by simp
  have unknown_z: "JIDs st ''z'' = None"
    by (simp add: st_def fresh_state_def)
  from LoadJIDs_loop_entry [OF reached_b, of "''a''" ex_extern "[(''z'', True)]"] jid_a
  obtain st' where stop: "LoadJIDs_loop ex_extern ''data/'' ([(''b'', True)] @ (''a'', True) # [(''z'', True)]) st
        = (Error (PathError ''open'' ''data/a/JobID.jid''), st')"
    and frame: "\<forall>n. (n, True) \<notin> set [(''b'', True)] \<longrightarrow> JIDs st' n = JIDs st n"
    by blast
  from frame unknown_z have "JIDs st' ''z'' = None"
    by simp
  with stop have abort: "\<exists>st'. LoadJIDs_loop ex_extern ''data/'' ([(''b'', True)] @ (''a'', True) # [(''z'', True)]) st
             = (Error (PathError ''open'' ''data/a/JobID.jid''), st') \<and> JIDs st' ''z'' = None"
    by blast
  from LoadJIDs_loop_entry [OF reached_none, of "''b''" ex_extern "[(''a'', True), (''z'', True)]"]
    jid_b started_b finished_b
  have zero: "\<exists>r. JIDs (snd (LoadJIDs_loop ex_extern ''data/'' ([] @ (''b'', True) # [(''a'', True), (''z'', True)]) st)) ''b'' = Some r
          \<and> PodUID r = ''b'' \<and> JID r = ''7'' \<and> StartTime r = 0 \<and> EndTime r = 0"
    by blast
  show ?thesis
    using jid_b jid_a abort zero unfolding st_def by blast
qed

end
